theory Spec2Isabelle
  imports Complex_Main "HOL-Library.Sublist" "HOL-Library.Word" "HOL-Library.Monad_Syntax"
begin

section \<open>JavaScript strings\<close>

text \<open>
  A JavaScript string is a sequence of UTF-16 code units. The embedding uses \<open>string\<close>
  and reads the character with code \<open>n\<close> as the code unit U+00nn, so it covers the
  strings whose code units all lie below U+0100.
\<close>

definition code :: "char \<Rightarrow> int" where
  "code c = of_char c"

text \<open>The characters removed by \<open>String.prototype.trim\<close> and matched by \<open>\s\<close>:
  TAB, LF, VT, FF, CR, SPACE and NO-BREAK SPACE.\<close>

definition isWhiteSpace :: "char \<Rightarrow> bool" where
  "isWhiteSpace c = ((9 \<le> code c \<and> code c \<le> 13) \<or> code c = 32 \<or> code c = 160)"

definition trimStart :: "string \<Rightarrow> string" where
  "trimStart s = dropWhile isWhiteSpace s"

definition trimEnd :: "string \<Rightarrow> string" where
  "trimEnd s = rev (dropWhile isWhiteSpace (rev s))"

definition trim :: "string \<Rightarrow> string" where
  "trim s = trimEnd (trimStart s)"

text \<open>\<open>toLowerCase\<close>: A-Z and the capital letters U+00C0..U+00DE (without the
  multiplication sign U+00D7) move up by 32.\<close>

definition toLowerChar :: "char \<Rightarrow> char" where
  "toLowerChar c =
     (if (65 \<le> code c \<and> code c \<le> 90) \<or> (192 \<le> code c \<and> code c \<le> 222 \<and> code c \<noteq> 215)
      then char_of (code c + 32) else c)"

definition toLowerCase :: "string \<Rightarrow> string" where
  "toLowerCase s = map toLowerChar s"

definition startsWith :: "string \<Rightarrow> string \<Rightarrow> bool" where
  "startsWith s p = prefix p s"

definition endsWith :: "string \<Rightarrow> string \<Rightarrow> bool" where
  "endsWith s p = prefix (rev p) (rev s)"

text \<open>\<open>String.prototype.includes\<close>: the needle occurs at some position.\<close>

fun includesStr :: "string \<Rightarrow> string \<Rightarrow> bool" where
  "includesStr [] n = (n = [])"
| "includesStr (c # cs) n = (prefix n (c # cs) \<or> includesStr cs n)"

section \<open>Slug normalisation\<close>

text \<open>The character class \<open>[a-z0-9]\<close>.\<close>

definition isLowerAlnum :: "char \<Rightarrow> bool" where
  "isLowerAlnum c = ((97 \<le> code c \<and> code c \<le> 122) \<or> (48 \<le> code c \<and> code c \<le> 57))"

definition isHyphen :: "char \<Rightarrow> bool" where
  "isHyphen c = (c = CHR ''-'')"

text \<open>
  \<open>.replace(/[^a-z0-9]+/g, "-")\<close>: every maximal run of characters outside
  \<open>[a-z0-9]\<close> becomes one hyphen. The flag says whether the scan is inside a run whose
  hyphen has been written already.
\<close>

fun replaceNonAlnumRuns :: "bool \<Rightarrow> string \<Rightarrow> string" where
  "replaceNonAlnumRuns inRun [] = []"
| "replaceNonAlnumRuns inRun (c # cs) =
     (if isLowerAlnum c then c # replaceNonAlnumRuns False cs
      else if inRun then replaceNonAlnumRuns True cs
      else CHR ''-'' # replaceNonAlnumRuns True cs)"

text \<open>\<open>.replace(/^-+|-+$/g, "")\<close>: the leading and the trailing run of hyphens go.\<close>

definition stripHyphens :: "string \<Rightarrow> string" where
  "stripHyphens s = rev (dropWhile isHyphen (rev (dropWhile isHyphen s)))"

text \<open>
  \<^verbatim>\<open>
  function normalizeProject(input: string): string {
    return input.trim().toLowerCase()
      .replace(/[^a-z0-9]+/g, "-").replace(/^-+|-+$/g, "");
  }
  \<close>
\<close>

definition normalizeProject :: "string \<Rightarrow> string" where
  "normalizeProject input = stripHyphens (replaceNonAlnumRuns False (toLowerCase (trim input)))"

text \<open>The character class \<open>[a-z0-9-]\<close> of a slug.\<close>

definition slugChar :: "char \<Rightarrow> bool" where
  "slugChar c = (isLowerAlnum c \<or> isHyphen c)"

section \<open>JavaScript numbers\<close>

text \<open>
  A Number is NaN, an infinity, or a finite double, kept as the rational it denotes
  (the sign of zero is not kept: nothing below tells \<open>-0\<close> from \<open>0\<close>).
\<close>

datatype jsnum = NaN | PosInf | NegInf | Fin rat

fun isFinite :: "jsnum \<Rightarrow> bool" where
  "isFinite (Fin q) = True"
| "isFinite n = False"

definition mathTrunc :: "rat \<Rightarrow> int" where
  "mathTrunc q = (if 0 \<le> q then \<lfloor>q\<rfloor> else \<lceil>q\<rceil>)"

text \<open>The number of binary digits of a positive integer.\<close>

function bitLength :: "int \<Rightarrow> nat" where
  "bitLength n = (if n \<le> 0 then 0 else Suc (bitLength (n div 2)))"
  by pat_completeness auto
termination
  by (relation "measure nat") auto

declare bitLength.simps [simp del]

definition pow2 :: "int \<Rightarrow> rat" where
  "pow2 k = (if 0 \<le> k then of_int (2 ^ nat k) else 1 / of_int (2 ^ nat (- k)))"

definition pow10 :: "int \<Rightarrow> rat" where
  "pow10 k = (if 0 \<le> k then of_int (10 ^ nat k) else 1 / of_int (10 ^ nat (- k)))"

text \<open>The exponent \<open>e\<close> with \<open>2^e \<le> q < 2^(e+1)\<close>, for a positive \<open>q\<close>.\<close>

definition binadeExponent :: "rat \<Rightarrow> int" where
  "binadeExponent q =
     (if 1 \<le> q then int (bitLength \<lfloor>q\<rfloor>) - 1
      else - int (bitLength (\<lceil>1 / q\<rceil> - 1)))"

definition roundHalfEven :: "rat \<Rightarrow> int" where
  "roundHalfEven x =
     (let f = \<lfloor>x\<rfloor>; d = x - of_int f
      in if d < 1 / 2 then f else if 1 / 2 < d then f + 1 else if even f then f else f + 1)"

text \<open>Rounding a non-negative rational to the nearest double, ties to even: with
  \<open>2^e \<le> q < 2^(e+1)\<close> (and \<open>e\<close> at least -1022) the result is the multiple of \<open>2^(e-52)\<close>
  nearest to \<open>q\<close>. From \<open>2^1024\<close> on, that is for \<open>e\<close> above 1023 or a rounding up to
  \<open>2^1024\<close>, the result is \<open>Infinity\<close>.\<close>

definition toDouble :: "rat \<Rightarrow> jsnum" where
  "toDouble q =
     (if q = 0 then Fin 0
      else let e = max (binadeExponent q) (- 1022)
           in if 1024 \<le> e then PosInf
              else let ulp = pow2 (e - 52);
                       n = roundHalfEven (q / ulp)
                   in if e = 1023 \<and> n = 2 ^ 53 then PosInf else Fin (of_int n * ulp))"

fun negate :: "jsnum \<Rightarrow> jsnum" where
  "negate (Fin q) = Fin (- q)"
| "negate PosInf = NegInf"
| "negate NegInf = PosInf"
| "negate NaN = NaN"

subsection \<open>\<open>Number(string)\<close>\<close>

definition isDigit :: "char \<Rightarrow> bool" where
  "isDigit c = (48 \<le> code c \<and> code c \<le> 57)"

definition isHexDigit :: "char \<Rightarrow> bool" where
  "isHexDigit c = (isDigit c \<or> (97 \<le> code c \<and> code c \<le> 102) \<or> (65 \<le> code c \<and> code c \<le> 70))"

definition digitVal :: "char \<Rightarrow> int" where
  "digitVal c =
     (if isDigit c then code c - 48
      else if 97 \<le> code c then code c - 87 else code c - 55)"

definition digitsValue :: "int \<Rightarrow> string \<Rightarrow> int" where
  "digitsValue base ds = foldl (\<lambda>a c. a * base + digitVal c) 0 ds"

fun splitSign :: "string \<Rightarrow> bool \<times> string" where
  "splitSign [] = (False, [])"
| "splitSign (c # cs) =
     (if c = CHR ''-'' then (True, cs) else if c = CHR ''+'' then (False, cs) else (False, c # cs))"

text \<open>The exponent part of a decimal literal, which must reach the end of the text.\<close>

definition exponentPart :: "string \<Rightarrow> int option" where
  "exponentPart r =
     (case r of
        [] \<Rightarrow> Some 0
      | c # cs \<Rightarrow>
          if c = CHR ''e'' \<or> c = CHR ''E''
          then (case splitSign cs of
                  (neg, ds) \<Rightarrow>
                    if ds \<noteq> [] \<and> list_all isDigit ds
                    then Some ((if neg then - 1 else 1) * digitsValue 10 ds)
                    else None)
          else None)"

text \<open>An unsigned decimal literal: digits, an optional fraction, an optional exponent,
  with a digit before or after the point.\<close>

definition strUnsignedDecimal :: "string \<Rightarrow> rat option" where
  "strUnsignedDecimal r =
     (let ip = takeWhile isDigit r;
          r1 = dropWhile isDigit r;
          hasDot = (r1 \<noteq> [] \<and> hd r1 = CHR ''.'');
          fp = (if hasDot then takeWhile isDigit (tl r1) else []);
          r2 = (if hasDot then dropWhile isDigit (tl r1) else r1)
      in if ip = [] \<and> fp = [] then None
         else (case exponentPart r2 of
                 None \<Rightarrow> None
               | Some e \<Rightarrow> Some (of_int (digitsValue 10 (ip @ fp)) * pow10 (e - int (length fp)))))"

text \<open>The unsigned literals \<open>0x..\<close>, \<open>0o..\<close> and \<open>0b..\<close>.\<close>

definition strNonDecimal :: "string \<Rightarrow> rat option" where
  "strNonDecimal r =
     (case r of
        c0 # c1 # ds \<Rightarrow>
          if c0 = CHR ''0'' \<and> ds \<noteq> []
          then (if (c1 = CHR ''x'' \<or> c1 = CHR ''X'') \<and> list_all isHexDigit ds
                then Some (of_int (digitsValue 16 ds))
                else if (c1 = CHR ''o'' \<or> c1 = CHR ''O'') \<and> list_all (\<lambda>c. isDigit c \<and> code c \<le> 55) ds
                then Some (of_int (digitsValue 8 ds))
                else if (c1 = CHR ''b'' \<or> c1 = CHR ''B'') \<and> list_all (\<lambda>c. isDigit c \<and> code c \<le> 49) ds
                then Some (of_int (digitsValue 2 ds))
                else None)
          else None
      | _ \<Rightarrow> None)"

definition stringToNumber :: "string \<Rightarrow> jsnum" where
  "stringToNumber s =
     (let t = trim s
      in if t = [] then Fin 0
         else (case strNonDecimal t of
                 Some v \<Rightarrow> toDouble v
               | None \<Rightarrow>
                   (case splitSign t of
                      (neg, r) \<Rightarrow>
                        if r = ''Infinity'' then (if neg then NegInf else PosInf)
                        else (case strUnsignedDecimal r of
                                None \<Rightarrow> NaN
                              | Some v \<Rightarrow> if neg then negate (toDouble v) else toDouble v))))"

text \<open>\<open>Number(x)\<close> for \<open>x: string | undefined\<close>: \<open>undefined\<close> converts to NaN.\<close>

definition Number :: "string option \<Rightarrow> jsnum" where
  "Number raw = (case raw of None \<Rightarrow> NaN | Some s \<Rightarrow> stringToNumber s)"

section \<open>The limit of a query\<close>

text \<open>
  \<^verbatim>\<open>
  function toSafeLimit(rawLimit: string | undefined, fallback: number): number {
    const parsed = Number(rawLimit);
    if (!Number.isFinite(parsed)) {
      return fallback;
    }
    return Math.min(Math.max(Math.trunc(parsed), 1), 100);
  }
  \<close>
\<close>

definition toSafeLimit :: "string option \<Rightarrow> int \<Rightarrow> int" where
  "toSafeLimit rawLimit fallback =
     (case Number rawLimit of
        Fin parsed \<Rightarrow> min (max (mathTrunc parsed) 1) 100
      | _ \<Rightarrow> fallback)"

text \<open>The limit that \<open>GET /v1/logs\<close> applies: \<open>toSafeLimit(query.limit, 120)\<close>.\<close>

definition logsSafeLimit :: "string option \<Rightarrow> int" where
  "logsSafeLimit queryLimit = toSafeLimit queryLimit 120"

text \<open>The limit that \<open>GET /v1/deployments\<close> applies: \<open>toSafeLimit(query.limit, 20)\<close>.\<close>

definition deploymentsSafeLimit :: "string option \<Rightarrow> int" where
  "deploymentsSafeLimit queryLimit = toSafeLimit queryLimit 20"

section \<open>Configured projects\<close>

record AutoDeployProjectConfig =
  projectName :: string
  projectSlug :: string
  repository :: string
  repositoryCanonical :: string
  branch :: string
  repoPath :: string
  deployCommand :: string
  environment :: string
  remoteHost :: "string option"
  domains :: "string list"

section \<open>Shell quoting and the deploy script\<close>

abbreviation (input) sq :: char where "sq \<equiv> CHR 0x27"
abbreviation (input) dq :: char where "dq \<equiv> CHR 0x22"
abbreviation (input) newline :: char where "newline \<equiv> CHR 0x0A"

text \<open>\<open>input.replace(/'/g, `'"'"'`)\<close>: every single quote becomes the five
  characters quote, double quote, quote, double quote, quote.\<close>

fun escapeQuotes :: "string \<Rightarrow> string" where
  "escapeQuotes [] = []"
| "escapeQuotes (c # cs) =
     (if c = sq then [sq, dq, sq, dq, sq] @ escapeQuotes cs else c # escapeQuotes cs)"

text \<open>
  \<^verbatim>\<open>
  function shellQuote(input: string): string {
    return `'${input.replace(/'/g, `'"'"'`)}'`;
  }
  \<close>
\<close>

definition shellQuote :: "string \<Rightarrow> string" where
  "shellQuote input = [sq] @ escapeQuotes input @ [sq]"

text \<open>\<open>Array.prototype.join\<close>.\<close>

fun joinWith :: "string \<Rightarrow> string list \<Rightarrow> string" where
  "joinWith sep [] = []"
| "joinWith sep [x] = x"
| "joinWith sep (x # y # ys) = x @ sep @ joinWith sep (y # ys)"

text \<open>
  \<^verbatim>\<open>
  function buildAutoDeployScript(project: AutoDeployProjectConfig, branch: string): string {
    const escapedRepoPath = shellQuote(project.repoPath);
    const escapedBranch = shellQuote(branch);
    const escapedOriginRef = shellQuote(`origin/${branch}`);
    const escapedDeployCommand = shellQuote(project.deployCommand);
    return [
      "set -euo pipefail",
      `cd ${escapedRepoPath}`,
      `git fetch origin ${escapedBranch}`,
      `git checkout ${escapedBranch} || git checkout -b ${escapedBranch} ${escapedOriginRef}`,
      `git reset --hard ${escapedOriginRef}`,
      "if [[ -x ./deploy-with-track.sh ]]; then",
      `  ./deploy-with-track.sh bash -lc ${escapedDeployCommand}`,
      "else",
      `  bash -lc ${escapedDeployCommand}`,
      "fi",
    ].join("\n");
  }
  \<close>
\<close>

definition buildAutoDeployScript :: "AutoDeployProjectConfig \<Rightarrow> string \<Rightarrow> string" where
  "buildAutoDeployScript project branchName =
     (let escapedRepoPath = shellQuote (repoPath project);
          escapedBranch = shellQuote branchName;
          escapedOriginRef = shellQuote (''origin/'' @ branchName);
          escapedDeployCommand = shellQuote (deployCommand project)
      in joinWith [newline]
           [''set -euo pipefail'',
            ''cd '' @ escapedRepoPath,
            ''git fetch origin '' @ escapedBranch,
            ''git checkout '' @ escapedBranch @ '' || git checkout -b '' @ escapedBranch
              @ '' '' @ escapedOriginRef,
            ''git reset --hard '' @ escapedOriginRef,
            ''if [[ -x ./deploy-with-track.sh ]]; then'',
            ''  ./deploy-with-track.sh bash -lc '' @ escapedDeployCommand,
            ''else'',
            ''  bash -lc '' @ escapedDeployCommand,
            ''fi''])"

subsection \<open>How a POSIX shell reads a script\<close>

text \<open>
  The reference for the claim about quoting: token recognition and quote removal of the
  POSIX shell (Shell Command Language, 2.2 and 2.3), for scripts without expansions.
  A token is a word after quote removal, an operator, or the end of a line. Inside single
  quotes every character stands for itself; inside double quotes every character but
  \<open>$\<close>, the backquote and the backslash does. Unquoted blanks end a word; an unquoted
  \<open>#\<close> where a word would start opens a comment. The reading gives no result for an
  unquoted or double-quoted \<open>$\<close>, backquote or backslash, or an open quote at the end.
\<close>

datatype token = Word string | Operator string | EndOfLine

datatype lexMode = Unquoted | InSingle | InDouble | InComment

definition isOperatorChar :: "char \<Rightarrow> bool" where
  "isOperatorChar c = (c \<in> set ''|&;<>()'')"

definition isExpansionChar :: "char \<Rightarrow> bool" where
  "isExpansionChar c = (c = CHR ''$'' \<or> c = CHR 0x60 \<or> c = CHR 0x5C)"

definition twoCharOperators :: "string list" where
  "twoCharOperators = [''||'', ''&&'', '';;'', ''<<'', ''>>'', ''<&'', ''>&'', ''<>'', ''>|'']"

text \<open>The word in progress, if any, becomes a token.\<close>

fun flush :: "string option \<Rightarrow> token list \<Rightarrow> token list" where
  "flush None ts = ts"
| "flush (Some w) ts = Word w # ts"

fun wordSoFar :: "string option \<Rightarrow> string" where
  "wordSoFar None = []"
| "wordSoFar (Some w) = w"

fun shTokens :: "lexMode \<Rightarrow> string option \<Rightarrow> string \<Rightarrow> token list option" where
  "shTokens Unquoted cur [] = Some (flush cur [])"
| "shTokens InComment cur [] = Some []"
| "shTokens InSingle cur [] = None"
| "shTokens InDouble cur [] = None"
| "shTokens InComment cur (c # cs) =
     (if c = newline then map_option (\<lambda>ts. EndOfLine # ts) (shTokens Unquoted None cs)
      else shTokens InComment None cs)"
| "shTokens InSingle cur (c # cs) =
     (if c = sq then shTokens Unquoted cur cs
      else shTokens InSingle (Some (wordSoFar cur @ [c])) cs)"
| "shTokens InDouble cur (c # cs) =
     (if c = dq then shTokens Unquoted cur cs
      else if isExpansionChar c then None
      else shTokens InDouble (Some (wordSoFar cur @ [c])) cs)"
| "shTokens Unquoted cur (c # cs) =
     (if c = sq then shTokens InSingle (Some (wordSoFar cur)) cs
      else if c = dq then shTokens InDouble (Some (wordSoFar cur)) cs
      else if isExpansionChar c then None
      else if c = CHR '' '' \<or> c = CHR 0x09 then
        map_option (flush cur) (shTokens Unquoted None cs)
      else if c = newline then
        map_option (\<lambda>ts. flush cur (EndOfLine # ts)) (shTokens Unquoted None cs)
      else if isOperatorChar c then
        (case cs of
           d # ds \<Rightarrow>
             if [c, d] \<in> set twoCharOperators
             then map_option (\<lambda>ts. flush cur (Operator [c, d] # ts)) (shTokens Unquoted None ds)
             else map_option (\<lambda>ts. flush cur (Operator [c] # ts)) (shTokens Unquoted None cs)
         | [] \<Rightarrow> map_option (\<lambda>ts. flush cur (Operator [c] # ts)) (shTokens Unquoted None cs))
      else if c = CHR ''#'' \<and> cur = None then shTokens InComment None cs
      else shTokens Unquoted (Some (wordSoFar cur @ [c])) cs)"

text \<open>The tokens of a script, read from its start.\<close>

definition shellRead :: "string \<Rightarrow> token list option" where
  "shellRead script = shTokens Unquoted None script"

section \<open>JSON values and loosely typed access\<close>

text \<open>A value as \<open>JSON.parse\<close> produces it. An object is the list of its own properties.\<close>

datatype json =
    JNull
  | JBool bool
  | JNum jsnum
  | JStr string
  | JArr "json list"
  | JObj "(string \<times> json) list"

text \<open>An expression that may throw: \<open>Inl\<close> is the exception.\<close>

datatype exn = TypeError

text \<open>\<open>value.key\<close> on a value that is neither \<open>null\<close> nor \<open>undefined\<close>, for a key that is
  no built-in property: \<open>None\<close> is \<open>undefined\<close>.\<close>

fun getProp :: "json \<Rightarrow> string \<Rightarrow> json option" where
  "getProp (JObj kvs) key = map_of kvs key"
| "getProp v key = None"

text \<open>\<open>value?.key\<close>.\<close>

fun optProp :: "json option \<Rightarrow> string \<Rightarrow> json option" where
  "optProp None key = None"
| "optProp (Some JNull) key = None"
| "optProp (Some v) key = getProp v key"

text \<open>\<open>a ?? b\<close>.\<close>

fun coalesce :: "json option \<Rightarrow> json option \<Rightarrow> json option" where
  "coalesce None b = b"
| "coalesce (Some JNull) b = b"
| "coalesce (Some v) b = Some v"

text \<open>\<open>(a ?? "").trim()\<close>: a string is trimmed, \<open>null\<close> and \<open>undefined\<close> give the empty
  string, any other value has no \<open>trim\<close> method.\<close>

fun trimOrEmpty :: "json option \<Rightarrow> exn + string" where
  "trimOrEmpty None = Inr []"
| "trimOrEmpty (Some JNull) = Inr []"
| "trimOrEmpty (Some (JStr s)) = Inr (trim s)"
| "trimOrEmpty (Some v) = Inl TypeError"

text \<open>Truthiness of a value in a condition.\<close>

fun truthy :: "json option \<Rightarrow> bool" where
  "truthy None = False"
| "truthy (Some JNull) = False"
| "truthy (Some (JBool b)) = b"
| "truthy (Some (JNum n)) = (n \<noteq> NaN \<and> n \<noteq> Fin 0)"
| "truthy (Some (JStr s)) = (s \<noteq> [])"
| "truthy (Some v) = True"

section \<open>Parsing JSON\<close>

text \<open>The grammar of ECMA-404 as \<open>JSON.parse\<close> reads it: first the tokens of the text,
  then the values they build.\<close>

datatype jtoken =
    TLBrace | TRBrace | TLBracket | TRBracket | TColon | TComma
  | TString string | TNumber string | TLiteral string

datatype lexState =
    LIdle
  | LStr string
  | LEsc string
  | LUni string string
  | LNum string
  | LLit string

definition isJsonSpace :: "char \<Rightarrow> bool" where
  "isJsonSpace c = (code c = 32 \<or> code c = 9 \<or> code c = 10 \<or> code c = 13)"

definition isNumberChar :: "char \<Rightarrow> bool" where
  "isNumberChar c = (isDigit c \<or> c \<in> set ''+-.eE'')"

text \<open>A character met outside any token: the token it makes, if it makes one alone, and
  the state after it; \<open>None\<close> for a character that can start nothing.\<close>

definition idleChar :: "char \<Rightarrow> (jtoken list \<times> lexState) option" where
  "idleChar c =
     (if isJsonSpace c then Some ([], LIdle)
      else if c = CHR ''{'' then Some ([TLBrace], LIdle)
      else if c = CHR ''}'' then Some ([TRBrace], LIdle)
      else if c = CHR ''['' then Some ([TLBracket], LIdle)
      else if c = CHR '']'' then Some ([TRBracket], LIdle)
      else if c = CHR '':'' then Some ([TColon], LIdle)
      else if c = CHR '','' then Some ([TComma], LIdle)
      else if c = dq then Some ([], LStr [])
      else if c = CHR ''-'' \<or> isDigit c then Some ([], LNum [c])
      else if 97 \<le> code c \<and> code c \<le> 122 then Some ([], LLit [c])
      else None)"

text \<open>The character that an escape letter stands for.\<close>

definition escapeChar :: "char \<Rightarrow> char option" where
  "escapeChar c =
     (if c = dq \<or> c = CHR 0x5C \<or> c = CHR ''/'' then Some c
      else if c = CHR ''b'' then Some (CHR 0x08)
      else if c = CHR ''f'' then Some (CHR 0x0C)
      else if c = CHR ''n'' then Some (CHR 0x0A)
      else if c = CHR ''r'' then Some (CHR 0x0D)
      else if c = CHR ''t'' then Some (CHR 0x09)
      else None)"

fun jsonLex :: "lexState \<Rightarrow> string \<Rightarrow> jtoken list option" where
  "jsonLex LIdle [] = Some []"
| "jsonLex (LNum acc) [] = Some [TNumber acc]"
| "jsonLex (LLit acc) [] = Some [TLiteral acc]"
| "jsonLex (LStr acc) [] = None"
| "jsonLex (LEsc acc) [] = None"
| "jsonLex (LUni acc hs) [] = None"
| "jsonLex LIdle (c # cs) =
     (case idleChar c of
        None \<Rightarrow> None
      | Some (ts, st) \<Rightarrow> map_option (\<lambda>rest. ts @ rest) (jsonLex st cs))"
| "jsonLex (LNum acc) (c # cs) =
     (if isNumberChar c then jsonLex (LNum (acc @ [c])) cs
      else (case idleChar c of
              None \<Rightarrow> None
            | Some (ts, st) \<Rightarrow> map_option (\<lambda>rest. TNumber acc # ts @ rest) (jsonLex st cs)))"
| "jsonLex (LLit acc) (c # cs) =
     (if 97 \<le> code c \<and> code c \<le> 122 then jsonLex (LLit (acc @ [c])) cs
      else (case idleChar c of
              None \<Rightarrow> None
            | Some (ts, st) \<Rightarrow> map_option (\<lambda>rest. TLiteral acc # ts @ rest) (jsonLex st cs)))"
| "jsonLex (LStr acc) (c # cs) =
     (if c = dq then map_option (\<lambda>rest. TString acc # rest) (jsonLex LIdle cs)
      else if c = CHR 0x5C then jsonLex (LEsc acc) cs
      else if code c < 32 then None
      else jsonLex (LStr (acc @ [c])) cs)"
| "jsonLex (LEsc acc) (c # cs) =
     (if c = CHR ''u'' then jsonLex (LUni acc []) cs
      else (case escapeChar c of
              None \<Rightarrow> None
            | Some e \<Rightarrow> jsonLex (LStr (acc @ [e])) cs))"
| "jsonLex (LUni acc hs) (c # cs) =
     (if \<not> isHexDigit c then None
      else if length hs < 3 then jsonLex (LUni acc (hs @ [c])) cs
      else if digitsValue 16 (hs @ [c]) < 256
      then jsonLex (LStr (acc @ [char_of (digitsValue 16 (hs @ [c]))])) cs
      else None)"

text \<open>The value of a number token: \<open>-? (0 | [1-9][0-9]*) (. [0-9]+)? ([eE] [+-]? [0-9]+)?\<close>.\<close>

definition jsonNumber :: "string \<Rightarrow> jsnum option" where
  "jsonNumber lexeme =
     (let negative = (lexeme \<noteq> [] \<and> hd lexeme = CHR ''-'');
          body = (if negative then tl lexeme else lexeme);
          ip = takeWhile isDigit body;
          r1 = dropWhile isDigit body;
          fracOk = (case r1 of
                      [] \<Rightarrow> True
                    | c # cs \<Rightarrow> c \<noteq> CHR ''.'' \<or> takeWhile isDigit cs \<noteq> [])
      in if ip = [] \<or> (1 < length ip \<and> hd ip = CHR ''0'') \<or> \<not> fracOk then None
         else (case strUnsignedDecimal body of
                 None \<Rightarrow> None
               | Some v \<Rightarrow> Some (if negative then negate (toDouble v) else toDouble v)))"

datatype frame = FArr "json list" | FObj "(string \<times> json) list" "string option"

datatype expect = EValue | EValueOrClose | EKeyOrClose | EKey | EColon | ECommaOrClose | EDone

text \<open>Defining a property: the value of an existing key is replaced in place.\<close>

fun setMember :: "string \<Rightarrow> json \<Rightarrow> (string \<times> json) list \<Rightarrow> (string \<times> json) list" where
  "setMember k v [] = [(k, v)]"
| "setMember k v ((k', v') # kvs) =
     (if k = k' then (k, v) # kvs else (k', v') # setMember k v kvs)"

text \<open>A complete value goes to the container on top of the stack, or is the result.\<close>

fun pushValue :: "json \<Rightarrow> frame list \<Rightarrow> (expect \<times> frame list \<times> json option) option" where
  "pushValue v [] = Some (EDone, [], Some v)"
| "pushValue v (FArr items # st) = Some (ECommaOrClose, FArr (items @ [v]) # st, None)"
| "pushValue v (FObj members (Some k) # st) = Some (ECommaOrClose, FObj (setMember k v members) None # st, None)"
| "pushValue v (FObj members None # st) = None"

definition literalValue :: "string \<Rightarrow> json option" where
  "literalValue l =
     (if l = ''true'' then Some (JBool True)
      else if l = ''false'' then Some (JBool False)
      else if l = ''null'' then Some JNull else None)"

text \<open>One token: the state after it, or \<open>None\<close> when the grammar does not allow it.\<close>

fun jsonStep :: "expect \<Rightarrow> frame list \<Rightarrow> jtoken \<Rightarrow> (expect \<times> frame list \<times> json option) option" where
  "jsonStep e st (TString s) =
     (if e = EValue \<or> e = EValueOrClose then pushValue (JStr s) st
      else if e = EKey \<or> e = EKeyOrClose then
        (case st of FObj members None # st' \<Rightarrow> Some (EColon, FObj members (Some s) # st', None)
                  | _ \<Rightarrow> None)
      else None)"
| "jsonStep e st (TNumber l) =
     (if e = EValue \<or> e = EValueOrClose
      then (case jsonNumber l of None \<Rightarrow> None | Some n \<Rightarrow> pushValue (JNum n) st)
      else None)"
| "jsonStep e st (TLiteral l) =
     (if e = EValue \<or> e = EValueOrClose
      then (case literalValue l of None \<Rightarrow> None | Some v \<Rightarrow> pushValue v st)
      else None)"
| "jsonStep e st TLBrace =
     (if e = EValue \<or> e = EValueOrClose then Some (EKeyOrClose, FObj [] None # st, None) else None)"
| "jsonStep e st TLBracket =
     (if e = EValue \<or> e = EValueOrClose then Some (EValueOrClose, FArr [] # st, None) else None)"
| "jsonStep e st TRBracket =
     (if e = EValueOrClose \<or> e = ECommaOrClose
      then (case st of FArr items # st' \<Rightarrow> pushValue (JArr items) st' | _ \<Rightarrow> None)
      else None)"
| "jsonStep e st TRBrace =
     (if e = EKeyOrClose \<or> e = ECommaOrClose
      then (case st of FObj members None # st' \<Rightarrow> pushValue (JObj members) st' | _ \<Rightarrow> None)
      else None)"
| "jsonStep e st TColon = (if e = EColon then Some (EValue, st, None) else None)"
| "jsonStep e st TComma =
     (if e = ECommaOrClose
      then (case st of FArr items # st' \<Rightarrow> Some (EValue, st, None)
                     | FObj members k # st' \<Rightarrow> Some (EKey, st, None)
                     | [] \<Rightarrow> None)
      else None)"

fun jsonRun :: "expect \<Rightarrow> frame list \<Rightarrow> json option \<Rightarrow> jtoken list \<Rightarrow> json option" where
  "jsonRun e st result [] = (if e = EDone then result else None)"
| "jsonRun e st result (t # ts) =
     (case jsonStep e st t of
        None \<Rightarrow> None
      | Some (e', st', result') \<Rightarrow> jsonRun e' st' result' ts)"

text \<open>\<open>JSON.parse(text)\<close>: the value, or \<open>None\<close> when it throws a SyntaxError. A
  \<open>\u\<close> escape of a code unit beyond U+00FF has no image in this embedding and gives
  \<open>None\<close> as well.\<close>

definition jsonParse :: "string \<Rightarrow> json option" where
  "jsonParse text = (case jsonLex LIdle text of None \<Rightarrow> None | Some ts \<Rightarrow> jsonRun EValue [] None ts)"

section \<open>The engine's built-ins\<close>

text \<open>
  Functions of Node.js and of the JavaScript engine that the code calls and that are
  taken as given: the keyed hash behind \<open>createHmac("sha256", key).update(text).digest()\<close>,
  \<open>JSON.stringify\<close>, \<open>Date.parse\<close> (\<open>None\<close> for NaN), \<open>Date.prototype.toISOString\<close>, the clock \<open>Date.now()\<close>, \<open>new Date(value).getTime()\<close>
  for a JSON value (\<open>None\<close> for NaN), and the host name that \<open>new URL\<close> finds
  (\<open>None\<close> when it throws).
\<close>

record runtime =
  hmacSha256 :: "string \<Rightarrow> string \<Rightarrow> 8 word list"
  jsonStringify :: "json \<Rightarrow> string"
  dateParse :: "string \<Rightarrow> int option"
  toISOString :: "int \<Rightarrow> string"
  dateNow :: int
  newDate :: "json \<Rightarrow> int option"
  urlHostname :: "string \<Rightarrow> string option"

section \<open>Configuration\<close>

text \<open>The constants the process computes from its environment at start-up.\<close>

record config =
  autoDeployEnabled :: bool
  autoDeployWebhookToken :: string
  githubWebhookSecret :: string
  autoDeployProjects :: "AutoDeployProjectConfig list"
  processEnv :: "string \<Rightarrow> string option"
  localServerHost :: string
  dashboardKnownHosts :: "string list"

definition fallbackProjectSlug :: string where
  "fallbackProjectSlug = ''kani-taxi''"

definition fallbackProjectName :: string where
  "fallbackProjectName = ''KANI TAXI''"

section \<open>Matching a push to a project\<close>

text \<open>\<open>String.prototype.split\<close> with a one-character separator.\<close>

fun splitOn :: "char \<Rightarrow> string \<Rightarrow> string list" where
  "splitOn sep [] = [[]]"
| "splitOn sep (c # cs) =
     (if c = sep then [] # splitOn sep cs
      else (case splitOn sep cs of
              [] \<Rightarrow> [[c]]
            | x # xs \<Rightarrow> (c # x) # xs))"

text \<open>\<open>.replace(/\.git$/i, "")\<close>.\<close>

definition stripDotGit :: "string \<Rightarrow> string" where
  "stripDotGit s =
     (if endsWith (toLowerCase s) ''.git'' then take (length s - 4) s else s)"

text \<open>
  \<^verbatim>\<open>
  function canonicalRepoName(input: string): string {
    const trimmed = input.trim().replace(/\.git$/i, "");
    const lastSegment = trimmed.split("/").filter((segment) => segment.length > 0).at(-1) ?? trimmed;
    return lastSegment.toLowerCase().replace(/[^a-z0-9]/g, "");
  }
  \<close>
\<close>

definition canonicalRepoName :: "string \<Rightarrow> string" where
  "canonicalRepoName input =
     (let trimmed = stripDotGit (trim input);
          segments = filter (\<lambda>segment. segment \<noteq> []) (splitOn CHR ''/'' trimmed);
          lastSegment = (if segments = [] then trimmed else last segments)
      in filter isLowerAlnum (toLowerCase lastSegment))"

text \<open>
  \<^verbatim>\<open>
  function branchFromRef(ref: string | undefined): string {
    const rawRef = (ref ?? "").trim();
    const prefix = "refs/heads/";
    if (!rawRef.startsWith(prefix)) {
      return "";
    }
    return rawRef.slice(prefix.length);
  }
  \<close>
  The caller passes \<open>payload.ref\<close> unchecked, so the argument is any JSON value.
\<close>

definition branchFromRef :: "json option \<Rightarrow> exn + string" where
  "branchFromRef ref =
     (case trimOrEmpty ref of
        Inl e \<Rightarrow> Inl e
      | Inr rawRef \<Rightarrow>
          if \<not> startsWith rawRef ''refs/heads/'' then Inr []
          else Inr (drop (length ''refs/heads/'') rawRef))"

text \<open>
  \<^verbatim>\<open>
  function findAutoDeployProject(repositoryName, repositoryFullName, branch) {
    const incomingFullName = repositoryFullName.trim().toLowerCase();
    const incomingRepoCanonical = canonicalRepoName(repositoryName || repositoryFullName);
    for (const project of autoDeployProjects) {
      const configuredRepo = project.repository.toLowerCase();
      const repoMatches = configuredRepo.includes("/")
        ? configuredRepo === incomingFullName
        : project.repositoryCanonical === incomingRepoCanonical;
      if (!repoMatches) { continue; }
      if (project.branch !== "*" && project.branch !== branch) { continue; }
      return project;
    }
    return null;
  }
  \<close>
  The loop, over the projects still to visit.
\<close>

fun findLoop :: "string \<Rightarrow> string \<Rightarrow> string \<Rightarrow> AutoDeployProjectConfig list
    \<Rightarrow> AutoDeployProjectConfig option" where
  "findLoop incomingFullName incomingRepoCanonical branchName [] = None"
| "findLoop incomingFullName incomingRepoCanonical branchName (project # rest) =
     (let configuredRepo = toLowerCase (repository project);
          repoMatches = (if includesStr configuredRepo ''/''
                         then configuredRepo = incomingFullName
                         else repositoryCanonical project = incomingRepoCanonical)
      in if \<not> repoMatches then findLoop incomingFullName incomingRepoCanonical branchName rest
         else if branch project \<noteq> ''*'' \<and> branch project \<noteq> branchName
         then findLoop incomingFullName incomingRepoCanonical branchName rest
         else Some project)"

definition findAutoDeployProject :: "config \<Rightarrow> string \<Rightarrow> string \<Rightarrow> string
    \<Rightarrow> AutoDeployProjectConfig option" where
  "findAutoDeployProject cfg repositoryName repositoryFullName branchName =
     (let incomingFullName = toLowerCase (trim repositoryFullName);
          incomingRepoCanonical =
            canonicalRepoName (if repositoryName \<noteq> [] then repositoryName else repositoryFullName)
      in findLoop incomingFullName incomingRepoCanonical branchName (autoDeployProjects cfg))"

section \<open>Verifying the signature of a webhook\<close>

definition hexDigitOf :: "int \<Rightarrow> char" where
  "hexDigitOf n = (if n < 10 then char_of (48 + n) else char_of (87 + n))"

text \<open>\<open>.digest("hex")\<close>: two lower-case hexadecimal digits for each byte.\<close>

fun hexEncode :: "8 word list \<Rightarrow> string" where
  "hexEncode [] = []"
| "hexEncode (b # bs) = hexDigitOf (uint b div 16) # hexDigitOf (uint b mod 16) # hexEncode bs"

text \<open>\<open>Buffer.from(text, "hex")\<close>: one byte for each pair of hexadecimal digits, up to the
  first pair that is not one.\<close>

fun hexDecode :: "string \<Rightarrow> 8 word list" where
  "hexDecode (a # b # cs) =
     (if isHexDigit a \<and> isHexDigit b
      then word_of_int (digitVal a * 16 + digitVal b) # hexDecode cs
      else [])"
| "hexDecode cs = []"

text \<open>
  \<^verbatim>\<open>
  function verifyGitHubSignature(signatureHeader, payload, secret): boolean {
    const trimmedSignature = signatureHeader.trim();
    if (!trimmedSignature.startsWith("sha256=")) { return false; }
    const signatureHex = trimmedSignature.slice("sha256=".length);
    if (!/^[a-f0-9]{64}$/i.test(signatureHex)) { return false; }
    const expectedSignature =
      createHmac("sha256", secret).update(JSON.stringify(payload)).digest("hex");
    const received = Buffer.from(signatureHex, "hex");
    const expected = Buffer.from(expectedSignature, "hex");
    if (received.length !== expected.length) { return false; }
    return timingSafeEqual(received, expected);
  }
  \<close>
\<close>

definition verifyGitHubSignature :: "runtime \<Rightarrow> string \<Rightarrow> json \<Rightarrow> string \<Rightarrow> bool" where
  "verifyGitHubSignature rt signatureHeader payload secret =
     (let trimmedSignature = trim signatureHeader
      in if \<not> startsWith trimmedSignature ''sha256='' then False
         else let signatureHex = drop (length ''sha256='') trimmedSignature
              in if \<not> (length signatureHex = 64 \<and> list_all isHexDigit signatureHex) then False
                 else let expectedSignature = hexEncode (hmacSha256 rt secret (jsonStringify rt payload));
                          received = hexDecode signatureHex;
                          expected = hexDecode expectedSignature
                      in if length received \<noteq> length expected then False
                         else received = expected)"

section \<open>The queue of deploys\<close>

record AutoDeployContext =
  ctxRepositoryName :: string
  ctxRepositoryFullName :: string
  ctxBranch :: string
  ctxCommitHash :: json
  ctxCommitMessage :: string
  ctxPusher :: string

text \<open>
  A job as \<open>queueAutoDeploy\<close> chains it: its id, the key of its queue, what it deploys,
  and the job whose promise the map held under that key, which it runs after.
\<close>

record job =
  jobId :: string
  jobQueueKey :: string
  jobProject :: AutoDeployProjectConfig
  jobContext :: AutoDeployContext
  jobPrevious :: "string option"

text \<open>The process state: \<open>autoDeployQueues\<close>, from a key to the id of the job whose
  promise it holds, and the jobs chained so far, in submission order.\<close>

record queueState =
  autoDeployQueues :: "string \<rightharpoonup> string"
  chained :: "job list"

text \<open>
  \<^verbatim>\<open>
  function queueAutoDeploy(project: AutoDeployProjectConfig, context: AutoDeployContext): string {
    const queueKey = `${project.projectSlug}:${project.branch}`;
    const jobId = randomUUID();
    const previous = autoDeployQueues.get(queueKey) ?? Promise.resolve();
    const next = previous.catch(() => undefined).then(async () => { ... runAutoDeploy ... });
    autoDeployQueues.set(queueKey, next);
    void next.catch(...).finally(() => {
      if (autoDeployQueues.get(queueKey) === next) { autoDeployQueues.delete(queueKey); }
    });
    return jobId;
  }
  \<close>
  The id that \<open>randomUUID\<close> returns is an argument.
\<close>

definition queueKeyOf :: "AutoDeployProjectConfig \<Rightarrow> string" where
  "queueKeyOf project = projectSlug project @ '':'' @ branch project"

definition queueAutoDeploy :: "AutoDeployProjectConfig \<Rightarrow> AutoDeployContext \<Rightarrow> string
    \<Rightarrow> queueState \<Rightarrow> queueState" where
  "queueAutoDeploy project context uuid st =
     (let queueKey = queueKeyOf project;
          previous = autoDeployQueues st queueKey;
          next = \<lparr>jobId = uuid, jobQueueKey = queueKey, jobProject = project,
                   jobContext = context, jobPrevious = previous\<rparr>
      in st\<lparr>autoDeployQueues := (autoDeployQueues st)(queueKey \<mapsto> uuid),
             chained := chained st @ [next]\<rparr>)"

text \<open>The \<open>finally\<close> callback of a job, run when the job has settled.\<close>

definition settle :: "job \<Rightarrow> queueState \<Rightarrow> queueState" where
  "settle j st =
     (if autoDeployQueues st (jobQueueKey j) = Some (jobId j)
      then st\<lparr>autoDeployQueues := (autoDeployQueues st)(jobQueueKey j := None)\<rparr>
      else st)"

section \<open>The webhook endpoint\<close>

text \<open>A request header as Node.js delivers it: absent, one value, or several.\<close>

datatype headerValue = HeaderAbsent | HeaderOne string | HeaderMany "string list"

text \<open>
  \<^verbatim>\<open>
  function extractHeaderValue(value: string | string[] | undefined): string {
    if (Array.isArray(value)) {
      return (value[0] ?? "").trim();
    }
    return (value ?? "").trim();
  }
  \<close>
\<close>

fun extractHeaderValue :: "headerValue \<Rightarrow> string" where
  "extractHeaderValue (HeaderMany []) = trim []"
| "extractHeaderValue (HeaderMany (v # vs)) = trim v"
| "extractHeaderValue (HeaderOne v) = trim v"
| "extractHeaderValue HeaderAbsent = trim []"

text \<open>What the handler reads of a request: the \<open>token\<close> query parameter, the headers
  \<open>x-github-event\<close> and \<open>x-hub-signature-256\<close>, and the body as the framework parsed it
  (\<open>None\<close> when there is none).\<close>

record request =
  queryToken :: "string option"
  githubEvent :: headerValue
  hubSignature256 :: headerValue
  body :: "json option"

datatype replyBody =
    ErrorBody string
  | PingBody
  | IgnoredBody string
  | QueuedBody string string string string

text \<open>A reply: its status code and its body.\<close>

datatype reply = Reply nat replyBody

text \<open>\<open>typeof value === "object"\<close> for a value that is not \<open>null\<close>.\<close>

fun isObjectValue :: "json \<Rightarrow> bool" where
  "isObjectValue (JObj kvs) = True"
| "isObjectValue (JArr vs) = True"
| "isObjectValue v = False"

text \<open>\<open>(payload.after ?? payload.head_commit?.id ?? "").slice(0, 12) || "unknown"\<close>:
  strings and arrays have a \<open>slice\<close> method, other values do not.\<close>

definition commitHashOf :: "json \<Rightarrow> exn + json" where
  "commitHashOf payload =
     (case coalesce (getProp payload ''after'')
             (coalesce (optProp (getProp payload ''head_commit'') ''id'') (Some (JStr []))) of
        Some (JStr h) \<Rightarrow> if take 12 h = [] then Inr (JStr ''unknown'') else Inr (JStr (take 12 h))
      | Some (JArr vs) \<Rightarrow> Inr (JArr (take 12 vs))
      | _ \<Rightarrow> Inl TypeError)"

text \<open>The \<open>AutoDeployContext\<close> that the handler builds for a matched push.\<close>

definition contextOf :: "json \<Rightarrow> string \<Rightarrow> string \<Rightarrow> string \<Rightarrow> exn + AutoDeployContext" where
  "contextOf payload repositoryName repositoryFullName branchName =
     (case commitHashOf payload of
        Inl e \<Rightarrow> Inl e
      | Inr commitHash \<Rightarrow>
          (case trimOrEmpty (optProp (getProp payload ''head_commit'') ''message'') of
             Inl e \<Rightarrow> Inl e
           | Inr commitMessage \<Rightarrow>
               (case trimOrEmpty
                       (coalesce (optProp (getProp payload ''pusher'') ''name'')
                          (coalesce (optProp (getProp payload ''sender'') ''login'')
                             (Some (JStr ''unknown'')))) of
                  Inl e \<Rightarrow> Inl e
                | Inr pusher \<Rightarrow>
                    Inr \<lparr>ctxRepositoryName = repositoryName,
                         ctxRepositoryFullName = repositoryFullName,
                         ctxBranch = branchName,
                         ctxCommitHash = commitHash,
                         ctxCommitMessage = commitMessage,
                         ctxPusher = (if pusher = [] then ''unknown'' else pusher)\<rparr>)))"

text \<open>
  The handler from the test for configured projects on, for a verified \<open>push\<close> event:
  \<^verbatim>\<open>
  if (autoDeployProjects.length === 0) { return reply.code(500).send({ error: ... }); }
  const branch = branchFromRef(payload.ref);
  if (!branch) { return reply.code(202).send({ status: "ignored", reason: ... }); }
  if (payload.deleted) { return reply.code(202).send({ status: "ignored", reason: ... }); }
  const repositoryName = (payload.repository?.name ?? "").trim();
  const repositoryFullName = (payload.repository?.full_name ?? repositoryName).trim();
  if (!repositoryFullName) { return reply.code(400).send({ error: ... }); }
  const project = findAutoDeployProject(repositoryName, repositoryFullName, branch);
  if (!project) { return reply.code(202).send({ status: "ignored", reason: ... }); }
  const commitHash = ...; const context: AutoDeployContext = { ... };
  const jobId = queueAutoDeploy(project, context);
  return reply.code(202).send({ status: "queued", jobId, projectName: project.projectName,
    branch, repository: repositoryFullName });
  \<close>
\<close>

definition handlePush :: "config \<Rightarrow> json \<Rightarrow> string \<Rightarrow> queueState \<Rightarrow> (exn + reply) \<times> queueState" where
  "handlePush cfg payload uuid st =
     (if autoDeployProjects cfg = []
      then (Inr (Reply 500 (ErrorBody ''AUTO_DEPLOY_PROJECTS is empty or invalid.'')), st)
      else case branchFromRef (getProp payload ''ref'') of
        Inl e \<Rightarrow> (Inl e, st)
      | Inr branchName \<Rightarrow>
          if branchName = []
          then (Inr (Reply 202 (IgnoredBody ''Push event is not targeting a branch.'')), st)
          else if truthy (getProp payload ''deleted'')
          then (Inr (Reply 202 (IgnoredBody (''Branch '' @ branchName @ '' was deleted.''))), st)
          else case trimOrEmpty (optProp (getProp payload ''repository'') ''name'') of
            Inl e \<Rightarrow> (Inl e, st)
          | Inr repositoryName \<Rightarrow>
              (case trimOrEmpty (coalesce (optProp (getProp payload ''repository'') ''full_name'')
                                   (Some (JStr repositoryName))) of
                 Inl e \<Rightarrow> (Inl e, st)
               | Inr repositoryFullName \<Rightarrow>
                   if repositoryFullName = []
                   then (Inr (Reply 400
                           (ErrorBody ''Repository information is missing in webhook payload.'')), st)
                   else (case findAutoDeployProject cfg repositoryName repositoryFullName branchName of
                           None \<Rightarrow>
                             (Inr (Reply 202 (IgnoredBody
                                (''No matching auto deploy project for '' @ repositoryFullName
                                   @ '':'' @ branchName @ ''.''))), st)
                         | Some project \<Rightarrow>
                             (case contextOf payload repositoryName repositoryFullName branchName of
                                Inl e \<Rightarrow> (Inl e, st)
                              | Inr context \<Rightarrow>
                                  (Inr (Reply 202 (QueuedBody uuid (projectName project)
                                          branchName repositoryFullName)),
                                   queueAutoDeploy project context uuid st)))))"

text \<open>
  The authentication step: \<open>None\<close> when the request passes, the message of the 401
  reply otherwise.
  \<^verbatim>\<open>
  if (autoDeployWebhookToken) {
    if ((query.token ?? "").trim() !== autoDeployWebhookToken) {
      return reply.code(401).send({ error: "Invalid webhook token." });
    }
  } else {
    const signatureHeader = extractHeaderValue(request.headers["x-hub-signature-256"]);
    if (!verifyGitHubSignature(signatureHeader, payload, githubWebhookSecret)) {
      return reply.code(401).send({ error: "Invalid webhook signature." });
    }
  }
  \<close>
\<close>

definition authFailure :: "runtime \<Rightarrow> config \<Rightarrow> request \<Rightarrow> json \<Rightarrow> string option" where
  "authFailure rt cfg request payload =
     (if autoDeployWebhookToken cfg \<noteq> []
      then (if trim (case queryToken request of None \<Rightarrow> [] | Some t \<Rightarrow> t) \<noteq> autoDeployWebhookToken cfg
            then Some ''Invalid webhook token.'' else None)
      else (if \<not> verifyGitHubSignature rt (extractHeaderValue (hubSignature256 request)) payload
                   (githubWebhookSecret cfg)
            then Some ''Invalid webhook signature.'' else None))"

text \<open>
  \<open>app.post("/v1/webhooks/github", ...)\<close>. The result is the reply, or the exception
  that the handler throws, and the state of the queues afterwards.
\<close>

definition webhookGithub :: "runtime \<Rightarrow> config \<Rightarrow> request \<Rightarrow> string \<Rightarrow> queueState
    \<Rightarrow> (exn + reply) \<times> queueState" where
  "webhookGithub rt cfg request uuid st =
     (let event = toLowerCase (extractHeaderValue (githubEvent request))
      in case body request of
           None \<Rightarrow> (Inr (Reply 400 (ErrorBody ''Invalid webhook payload.'')), st)
         | Some payload \<Rightarrow>
             if JNull = payload \<or> \<not> isObjectValue payload
             then (Inr (Reply 400 (ErrorBody ''Invalid webhook payload.'')), st)
             else if \<not> autoDeployEnabled cfg
             then (Inr (Reply 503
                     (ErrorBody ''Auto deploy is disabled. Set AUTO_DEPLOY_ENABLED=true.'')), st)
             else if autoDeployWebhookToken cfg = [] \<and> githubWebhookSecret cfg = []
             then (Inr (Reply 500
                     (ErrorBody ''Webhook auth missing. Set AUTO_DEPLOY_WEBHOOK_TOKEN or GITHUB_WEBHOOK_SECRET.'')), st)
             else (case authFailure rt cfg request payload of
                     Some message \<Rightarrow> (Inr (Reply 401 (ErrorBody message)), st)
                   | None \<Rightarrow>
                       if event = ''ping'' then (Inr (Reply 200 PingBody), st)
                       else if event \<noteq> ''push''
                       then (Inr (Reply 202 (IgnoredBody
                               (''Unsupported event '' @ (if event \<noteq> [] then event else ''unknown'')
                                  @ ''.''))), st)
                       else handlePush cfg payload uuid st))"

subsection \<open>The matching rule in the words of the specification\<close>

text \<open>
  A project matches if its \<open>repository\<close> contains \<open>/\<close> and equals the incoming full name
  case-insensitively, or has no \<open>/\<close> and its canonical form equals the incoming
  repository's canonical form; and its configured branch is \<open>*\<close> or equals the incoming
  branch exactly.
\<close>

definition projectMatches :: "string \<Rightarrow> string \<Rightarrow> string \<Rightarrow> AutoDeployProjectConfig \<Rightarrow> bool" where
  "projectMatches repositoryName repositoryFullName branchName project =
     (((includesStr (repository project) ''/''
          \<and> toLowerCase (repository project) = toLowerCase (trim repositoryFullName))
       \<or> (\<not> includesStr (repository project) ''/''
          \<and> repositoryCanonical project
              = canonicalRepoName (if repositoryName \<noteq> [] then repositoryName else repositoryFullName)))
      \<and> (branch project = ''*'' \<or> branch project = branchName))"

subsection \<open>When a push reaches the matching step\<close>

text \<open>
  The conditions under which the handler calls \<open>findAutoDeployProject\<close> with repository
  name \<open>n\<close>, full name \<open>f\<close> and branch \<open>b\<close>: an object body, the feature enabled, an auth
  mode configured and passed, a \<open>push\<close> event, some project configured, a branch ref that
  is not deleted, and a repository identity.
\<close>

definition reachesMatching :: "runtime \<Rightarrow> config \<Rightarrow> request \<Rightarrow> json \<Rightarrow> string \<Rightarrow> string \<Rightarrow> string
    \<Rightarrow> bool" where
  "reachesMatching rt cfg request payload n f b =
     (body request = Some payload \<and> isObjectValue payload \<and> autoDeployEnabled cfg
      \<and> (autoDeployWebhookToken cfg \<noteq> [] \<or> githubWebhookSecret cfg \<noteq> [])
      \<and> authFailure rt cfg request payload = None
      \<and> toLowerCase (extractHeaderValue (githubEvent request)) = ''push''
      \<and> autoDeployProjects cfg \<noteq> []
      \<and> branchFromRef (getProp payload ''ref'') = Inr b \<and> b \<noteq> []
      \<and> \<not> truthy (getProp payload ''deleted'')
      \<and> trimOrEmpty (optProp (getProp payload ''repository'') ''name'') = Inr n
      \<and> trimOrEmpty (coalesce (optProp (getProp payload ''repository'') ''full_name'')
                        (Some (JStr n))) = Inr f
      \<and> f \<noteq> [])"

subsection \<open>The example of the specification\<close>

text \<open>A project configured with \<open>repository: "org/acme", branch: "main"\<close>, a
  configuration that authenticates by token, and a push payload with a ref and
  \<open>repository.full_name\<close>.\<close>

definition acmeProject :: AutoDeployProjectConfig where
  "acmeProject =
     \<lparr>projectName = ''Acme'', projectSlug = ''acme'', repository = ''org/acme'',
      repositoryCanonical = ''acme'', branch = ''main'', repoPath = ''/var/www/projects/acme'',
      deployCommand = ''make deploy'', environment = ''Production'', remoteHost = None,
      domains = []\<rparr>"

definition tokenConfig :: "AutoDeployProjectConfig list \<Rightarrow> config" where
  "tokenConfig projects =
     \<lparr>autoDeployEnabled = True, autoDeployWebhookToken = ''t0ken'', githubWebhookSecret = [],
      autoDeployProjects = projects, processEnv = (\<lambda>name. None),
      localServerHost = ''control.local'', dashboardKnownHosts = [''control.local'', ''localhost'']\<rparr>"

definition pushRequest :: "string \<Rightarrow> string \<Rightarrow> request" where
  "pushRequest ref fullName =
     \<lparr>queryToken = Some ''t0ken'', githubEvent = HeaderOne ''push'', hubSignature256 = HeaderAbsent,
      body = Some (JObj [(''ref'', JStr ref),
                         (''repository'', JObj [(''full_name'', JStr fullName)])])\<rparr>"

definition pingRequest :: request where
  "pingRequest =
     \<lparr>queryToken = Some ''t0ken'', githubEvent = HeaderOne ''ping'', hubSignature256 = HeaderAbsent,
      body = Some (JObj [(''zen'', JStr ''Keep it logically awesome.'')])\<rparr>"

definition emptyQueues :: queueState where
  "emptyQueues = \<lparr>autoDeployQueues = Map.empty, chained = []\<rparr>"

text \<open>
  The built-ins at the inputs of the examples: 10 October 2000, 20:55:36 UTC, is
  971211336000 ms after the epoch and 1 January 2026, 00:00 UTC, which the clock shows,
  is 1767225600000 ms after it. The examples authenticate by token and do not reach the
  hash or \<open>JSON.stringify\<close>.
\<close>

definition exampleDateParse :: "string \<Rightarrow> int option" where
  "exampleDateParse text =
     (if text = ''10/Oct/2000 13:55:36 -0700'' \<or> text = ''2000-10-10T20:55:36.000Z''
      then Some 971211336000
      else if text = ''2026-01-01T00:00:00.000Z'' then Some 1767225600000
      else None)"

definition exampleRuntime :: runtime where
  "exampleRuntime =
     \<lparr>hmacSha256 = (\<lambda>key text. replicate 32 0), jsonStringify = (\<lambda>v. []),
      dateParse = exampleDateParse,
      toISOString = (\<lambda>ms. if ms = 971211336000 then ''2000-10-10T20:55:36.000Z''
                           else ''2026-01-01T00:00:00.000Z''),
      dateNow = 1767225600000,
      newDate = (\<lambda>v. case v of JStr text \<Rightarrow> exampleDateParse text | _ \<Rightarrow> None),
      urlHostname = (\<lambda>url. if url = ''https://kanitaxi.com'' then Some ''kanitaxi.com'' else None)\<rparr>"

section \<open>Hosts and project identity\<close>

text \<open>\<open>toUpperCase\<close>: a-z and the small letters U+00E0..U+00FE (without the division
  sign U+00F7) move down by 32 and the sharp s becomes \<open>SS\<close>. The micro sign and the y
  with diaeresis, whose capitals lie beyond U+00FF, are left as they are.\<close>

definition toUpperChar :: "char \<Rightarrow> string" where
  "toUpperChar c =
     (if (97 \<le> code c \<and> code c \<le> 122) \<or> (224 \<le> code c \<and> code c \<le> 254 \<and> code c \<noteq> 247)
      then [char_of (code c - 32)]
      else if code c = 223 then ''SS'' else [c])"

definition toUpperCase :: "string \<Rightarrow> string" where
  "toUpperCase s = concat (map toUpperChar s)"

text \<open>The characters that \<open>.\<close> does not match: LF and CR.\<close>

definition isLineTerminator :: "char \<Rightarrow> bool" where
  "isLineTerminator c = (code c = 10 \<or> code c = 13)"

text \<open>\<open>.replace(/^https?:\/\//, "")\<close>.\<close>

definition stripScheme :: "string \<Rightarrow> string" where
  "stripScheme s =
     (if startsWith s ''https://'' then drop 8 s
      else if startsWith s ''http://'' then drop 7 s else s)"

text \<open>\<open>.replace(/\/.*$/, "")\<close>: from the first slash that no line terminator follows.\<close>

fun stripPathTail :: "string \<Rightarrow> string" where
  "stripPathTail [] = []"
| "stripPathTail (c # cs) =
     (if c = CHR ''/'' \<and> \<not> list_ex isLineTerminator cs then [] else c # stripPathTail cs)"

text \<open>\<open>.replace(/:\d+$/, "")\<close>: a colon and digits at the very end.\<close>

fun stripPort :: "string \<Rightarrow> string" where
  "stripPort [] = []"
| "stripPort (c # cs) =
     (if c = CHR '':'' \<and> cs \<noteq> [] \<and> list_all isDigit cs then [] else c # stripPort cs)"

text \<open>
  \<^verbatim>\<open>
  function normalizeHost(rawHost: string): string {
    return rawHost.trim().toLowerCase()
      .replace(/^https?:\/\//, "").replace(/\/.*$/, "").replace(/:\d+$/, "");
  }
  \<close>
\<close>

definition normalizeHost :: "string \<Rightarrow> string" where
  "normalizeHost rawHost = stripPort (stripPathTail (stripScheme (toLowerCase (trim rawHost))))"

text \<open>\<open>process.env[key] ?? ""\<close>.\<close>

definition envOrEmpty :: "config \<Rightarrow> string \<Rightarrow> string" where
  "envOrEmpty cfg key = (case processEnv cfg key of None \<Rightarrow> [] | Some v \<Rightarrow> v)"

text \<open>\<open>autoDeployProjects[0]?.projectSlug ?? fallbackProjectSlug\<close>.\<close>

definition defaultProjectSlug :: "config \<Rightarrow> string" where
  "defaultProjectSlug cfg =
     (case autoDeployProjects cfg of [] \<Rightarrow> fallbackProjectSlug | project # rest \<Rightarrow> projectSlug project)"

definition defaultProjectName :: "config \<Rightarrow> string" where
  "defaultProjectName cfg =
     (case autoDeployProjects cfg of [] \<Rightarrow> fallbackProjectName | project # rest \<Rightarrow> projectName project)"

text \<open>\<open>(process.env.KANI_TAXI_PREVIEW_URL ?? "https://kanitaxi.com").trim()\<close>.\<close>

definition defaultScreenshotTargetUrl :: "config \<Rightarrow> string" where
  "defaultScreenshotTargetUrl cfg =
     trim (case processEnv cfg ''KANI_TAXI_PREVIEW_URL'' of
             None \<Rightarrow> ''https://kanitaxi.com'' | Some v \<Rightarrow> v)"

text \<open>\<open>autoDeployProjectsBySlug\<close>, a \<open>Map\<close> built from the project list: of two projects
  with one slug the later one is kept.\<close>

definition autoDeployProjectsBySlug :: "config \<Rightarrow> string \<rightharpoonup> AutoDeployProjectConfig" where
  "autoDeployProjectsBySlug cfg =
     map_of (rev (map (\<lambda>project. (projectSlug project, project)) (autoDeployProjects cfg)))"

text \<open>
  \<^verbatim>\<open>
  function resolveProjectSlug(input: string | undefined): string {
    if (!input) { return defaultProjectSlug; }
    const normalized = normalizeProject(input);
    if (!normalized) { return defaultProjectSlug; }
    return normalized;
  }
  function resolveProjectName(projectSlug: string): string {
    return autoDeployProjectsBySlug.get(projectSlug)?.projectName ?? defaultProjectName;
  }
  \<close>
\<close>

definition resolveProjectSlug :: "config \<Rightarrow> string option \<Rightarrow> string" where
  "resolveProjectSlug cfg input =
     (case input of
        None \<Rightarrow> defaultProjectSlug cfg
      | Some i \<Rightarrow>
          if i = [] then defaultProjectSlug cfg
          else if normalizeProject i = [] then defaultProjectSlug cfg
          else normalizeProject i)"

definition resolveProjectName :: "config \<Rightarrow> string \<Rightarrow> string" where
  "resolveProjectName cfg slug =
     (case autoDeployProjectsBySlug cfg slug of
        None \<Rightarrow> defaultProjectName cfg
      | Some project \<Rightarrow> projectName project)"

text \<open>\<open>projectSlug.replace(/-/g, "_").toUpperCase()\<close>, the prefix of the per-project
  environment variables.\<close>

definition envPrefixOf :: "string \<Rightarrow> string" where
  "envPrefixOf slug = toUpperCase (map (\<lambda>c. if c = CHR ''-'' then CHR ''_'' else c) slug)"

text \<open>
  \<^verbatim>\<open>
  function resolveProjectPreviewUrl(projectSlug: string): string {
    const envKey = `${projectSlug.replace(/-/g, "_").toUpperCase()}_PREVIEW_URL`;
    const perProjectUrl = (process.env[envKey] ?? "").trim();
    if (perProjectUrl) { return perProjectUrl; }
    if (projectSlug === defaultProjectSlug) { return defaultScreenshotTargetUrl; }
    return "";
  }
  function resolveProjectPreviewHost(projectSlug: string): string {
    const previewUrl = resolveProjectPreviewUrl(projectSlug);
    if (!previewUrl) return "";
    try { return normalizeHost(new URL(previewUrl).hostname); }
    catch { return normalizeHost(previewUrl); }
  }
  \<close>
\<close>

definition resolveProjectPreviewUrl :: "config \<Rightarrow> string \<Rightarrow> string" where
  "resolveProjectPreviewUrl cfg slug =
     (let perProjectUrl = trim (envOrEmpty cfg (envPrefixOf slug @ ''_PREVIEW_URL''))
      in if perProjectUrl \<noteq> [] then perProjectUrl
         else if slug = defaultProjectSlug cfg then defaultScreenshotTargetUrl cfg
         else [])"

definition resolveProjectPreviewHost :: "runtime \<Rightarrow> config \<Rightarrow> string \<Rightarrow> string" where
  "resolveProjectPreviewHost rt cfg slug =
     (let previewUrl = resolveProjectPreviewUrl cfg slug
      in if previewUrl = [] then []
         else (case urlHostname rt previewUrl of
                 Some hostname \<Rightarrow> normalizeHost hostname
               | None \<Rightarrow> normalizeHost previewUrl))"

text \<open>
  \<open>asDomainList\<close> for an environment variable (a string or \<open>undefined\<close>):
  \<^verbatim>\<open>
  function asDomainList(value: unknown): string[] {
    const values = Array.isArray(value) ? value : [value];
    return values.flatMap((entry) => (typeof entry === "string" ? entry.split(",") : []))
      .map((entry) => normalizeHost(entry)).filter((entry) => entry.length > 0);
  }
  \<close>
\<close>

definition asDomainList :: "string option \<Rightarrow> string list" where
  "asDomainList v =
     filter (\<lambda>entry. entry \<noteq> [])
       (map normalizeHost (case v of None \<Rightarrow> [] | Some entry \<Rightarrow> splitOn CHR '','' entry))"

text \<open>\<open>[...new Set(values)]\<close>: the first occurrence of each value, in order.\<close>

fun uniqueInOrder :: "string list \<Rightarrow> string list \<Rightarrow> string list" where
  "uniqueInOrder seen [] = []"
| "uniqueInOrder seen (x # xs) =
     (if x \<in> set seen then uniqueInOrder seen xs else x # uniqueInOrder (x # seen) xs)"

text \<open>
  \<^verbatim>\<open>
  function resolveProjectConfiguredHosts(projectSlug: string): string[] {
    const project = autoDeployProjectsBySlug.get(projectSlug);
    const envPrefix = projectSlug.replace(/-/g, "_").toUpperCase();
    const envDomains = [
      ...asDomainList(process.env[`${envPrefix}_DOMAINS`]),
      ...asDomainList(process.env[`${envPrefix}_DOMAIN`]),
      ...asDomainList(process.env[`${envPrefix}_LIVE_DOMAINS`]),
      ...asDomainList(process.env[`${envPrefix}_LIVE_DOMAIN`]),
    ];
    const hosts = [...(project?.domains ?? []), ...envDomains].map((entry) => normalizeHost(entry));
    return [...new Set(hosts.filter((entry) => entry.length > 0))];
  }
  \<close>
\<close>

definition resolveProjectConfiguredHosts :: "config \<Rightarrow> string \<Rightarrow> string list" where
  "resolveProjectConfiguredHosts cfg slug =
     (let envPrefix = envPrefixOf slug;
          envDomains = asDomainList (processEnv cfg (envPrefix @ ''_DOMAINS''))
                     @ asDomainList (processEnv cfg (envPrefix @ ''_DOMAIN''))
                     @ asDomainList (processEnv cfg (envPrefix @ ''_LIVE_DOMAINS''))
                     @ asDomainList (processEnv cfg (envPrefix @ ''_LIVE_DOMAIN''));
          hosts = map normalizeHost
                    ((case autoDeployProjectsBySlug cfg slug of
                        None \<Rightarrow> [] | Some project \<Rightarrow> domains project) @ envDomains)
      in uniqueInOrder [] (filter (\<lambda>entry. entry \<noteq> []) hosts))"

text \<open>\<open>projectSlug.toLowerCase().replace(/[^a-z0-9]/g, "")\<close>.\<close>

definition projectSlugCanonicalValue :: "string \<Rightarrow> string" where
  "projectSlugCanonicalValue slug = filter isLowerAlnum (toLowerCase slug)"

section \<open>Parsing a line of the access log\<close>

record ParsedRequestLogLine =
  plTimestamp :: "string option"
  plMethod :: string
  plStatusCode :: "int option"
  plHost :: string
  plPath :: string
  plMessage :: string
  plRemoteAddr :: "string option"
  plProjectHint :: "string option"

definition isAsciiLetter :: "char \<Rightarrow> bool" where
  "isAsciiLetter c = ((65 \<le> code c \<and> code c \<le> 90) \<or> (97 \<le> code c \<and> code c \<le> 122))"

text \<open>
  \<^verbatim>\<open>
  function parseRequestLine(rawValue: string): { method: string; path: string } {
    const match = rawValue.trim().match(/^([A-Z]+)\s+(\S+)/i);
    if (!match) { return { method: "GET", path: "/" }; }
    return { method: (match[1] ?? "GET").toUpperCase(), path: match[2] ?? "/" };
  }
  \<close>
\<close>

definition parseRequestLine :: "string \<Rightarrow> string \<times> string" where
  "parseRequestLine rawValue =
     (let t = trim rawValue;
          letters = takeWhile isAsciiLetter t;
          afterLetters = dropWhile isAsciiLetter t;
          spaces = takeWhile isWhiteSpace afterLetters;
          target = takeWhile (\<lambda>c. \<not> isWhiteSpace c) (dropWhile isWhiteSpace afterLetters)
      in if letters = [] \<or> spaces = [] \<or> target = [] then (''GET'', ''/'')
         else (toUpperCase letters, target))"

text \<open>The double with the value of a rational of either sign.\<close>

definition roundDouble :: "rat \<Rightarrow> jsnum" where
  "roundDouble q = (if q < 0 then negate (toDouble (- q)) else toDouble q)"

text \<open>
  \<^verbatim>\<open>
  function coerceStatusCode(rawValue: unknown): number | null {
    if (typeof rawValue === "number" && Number.isFinite(rawValue)) {
      const rounded = Math.trunc(rawValue);
      return rounded >= 100 && rounded <= 599 ? rounded : null;
    }
    if (typeof rawValue === "string") {
      const parsed = Number(rawValue.trim());
      if (!Number.isFinite(parsed)) { return null; }
      const rounded = Math.trunc(parsed);
      return rounded >= 100 && rounded <= 599 ? rounded : null;
    }
    return null;
  }
  \<close>
\<close>

definition statusInRange :: "jsnum \<Rightarrow> int option" where
  "statusInRange n =
     (case n of
        Fin q \<Rightarrow> if 100 \<le> mathTrunc q \<and> mathTrunc q \<le> 599 then Some (mathTrunc q) else None
      | _ \<Rightarrow> None)"

fun coerceStatusCode :: "json option \<Rightarrow> int option" where
  "coerceStatusCode (Some (JNum n)) = statusInRange n"
| "coerceStatusCode (Some (JStr s)) = statusInRange (stringToNumber (trim s))"
| "coerceStatusCode v = None"

text \<open>
  \<^verbatim>\<open>
  function parseNginxTimestamp(rawValue: string): string | undefined {
    const normalized = rawValue.trim().replace(/^(\d{1,2}\/[A-Za-z]{3}\/\d{4}):/, "$1 ");
    const parsed = Date.parse(normalized);
    if (Number.isNaN(parsed)) { return undefined; }
    return new Date(parsed).toISOString();
  }
  \<close>
  The pattern: one or two digits, a slash, three letters, a slash, four digits, a colon.
\<close>

definition nginxDatePrefix :: "string \<Rightarrow> nat option" where
  "nginxDatePrefix s =
     (let d = length (takeWhile isDigit s);
          r = drop d s
      in if (d = 1 \<or> d = 2)
            \<and> 10 \<le> length r
            \<and> r ! 0 = CHR ''/''
            \<and> list_all isAsciiLetter (take 3 (drop 1 r))
            \<and> r ! 4 = CHR ''/''
            \<and> list_all isDigit (take 4 (drop 5 r))
            \<and> r ! 9 = CHR '':''
         then Some (d + 9) else None)"

definition parseNginxTimestamp :: "runtime \<Rightarrow> string \<Rightarrow> string option" where
  "parseNginxTimestamp rt rawValue =
     (let t = trim rawValue;
          normalized = (case nginxDatePrefix t of
                          None \<Rightarrow> t
                        | Some i \<Rightarrow> take i t @ '' '' @ drop (Suc i) t)
      in case dateParse rt normalized of
           None \<Rightarrow> None
         | Some parsed \<Rightarrow> Some (toISOString rt parsed))"

text \<open>
  \<^verbatim>\<open>
  function toIsoTimestamp(rawValue: unknown): string | undefined {
    if (typeof rawValue === "number" && Number.isFinite(rawValue)) {
      const asMs = rawValue > 1_000_000_000_000 ? rawValue : rawValue * 1000;
      const timestamp = new Date(asMs);
      if (Number.isNaN(timestamp.getTime())) { return undefined; }
      return timestamp.toISOString();
    }
    if (typeof rawValue !== "string") { return undefined; }
    const trimmed = rawValue.trim();
    if (!trimmed) { return undefined; }
    const parsedNginx = parseNginxTimestamp(trimmed);
    if (parsedNginx) { return parsedNginx; }
    const parsed = Date.parse(trimmed);
    if (Number.isNaN(parsed)) { return undefined; }
    return new Date(parsed).toISOString();
  }
  \<close>
  A \<open>Date\<close> holds a whole number of milliseconds of magnitude at most 8.64e15.
\<close>

definition dateOfNumber :: "runtime \<Rightarrow> jsnum \<Rightarrow> string option" where
  "dateOfNumber rt n =
     (case n of
        Fin ms \<Rightarrow> if \<bar>ms\<bar> \<le> 8640000000000000 then Some (toISOString rt (mathTrunc ms)) else None
      | _ \<Rightarrow> None)"

fun toIsoTimestamp :: "runtime \<Rightarrow> json option \<Rightarrow> string option" where
  "toIsoTimestamp rt (Some (JNum (Fin rawValue))) =
     dateOfNumber rt (if 1000000000000 < rawValue then Fin rawValue else roundDouble (rawValue * 1000))"
| "toIsoTimestamp rt (Some (JStr rawValue)) =
     (let trimmed = trim rawValue
      in if trimmed = [] then None
         else (case parseNginxTimestamp rt trimmed of
                 Some parsedNginx \<Rightarrow>
                   if parsedNginx \<noteq> [] then Some parsedNginx
                   else map_option (toISOString rt) (dateParse rt trimmed)
               | None \<Rightarrow> map_option (toISOString rt) (dateParse rt trimmed)))"
| "toIsoTimestamp rt v = None"

text \<open>\<open>typeof value[key] === "string" ? value[key] : ...\<close>: the string under a key.\<close>

definition stringProp :: "json \<Rightarrow> string \<Rightarrow> string option" where
  "stringProp v key = (case getProp v key of Some (JStr s) \<Rightarrow> Some s | _ \<Rightarrow> None)"

text \<open>The first of the keys under which the value holds a string.\<close>

fun firstStringProp :: "json \<Rightarrow> string list \<Rightarrow> string option" where
  "firstStringProp v [] = None"
| "firstStringProp v (key # keys) =
     (case stringProp v key of Some s \<Rightarrow> Some s | None \<Rightarrow> firstStringProp v keys)"

text \<open>\<open>a || b\<close> on strings.\<close>

definition orElse :: "string \<Rightarrow> string \<Rightarrow> string" where
  "orElse a b = (if a \<noteq> [] then a else b)"

text \<open>
  The body of the \<open>try\<close> block of \<open>parseJsonRequestLogLine\<close>, for a parsed value that is
  not \<open>null\<close>:
  \<^verbatim>\<open>
  const rawRequest = typeof value.request === "string" ? value.request
    : typeof value.httpRequest === "string" ? value.httpRequest : "";
  const requestLine = parseRequestLine(rawRequest);
  const method = typeof value.method === "string"
    ? value.method.trim().toUpperCase() || requestLine.method : requestLine.method;
  const pathValue = typeof value.path === "string" ? value.path.trim() || requestLine.path
    : typeof value.url === "string" ? value.url.trim() || requestLine.path
    : typeof value.requestPath === "string" ? value.requestPath.trim() || requestLine.path
    : requestLine.path;
  const statusCode = coerceStatusCode(value.statusCode ?? value.status);
  const host = (first string of value.host, value.hostname, value.domain) or "";
  const remoteAddr = (first string of value.remoteAddr, value.ip, value.clientIp) or undefined;
  const projectHint = (first string of value.projectSlug, value.project, value.projectName)
    or undefined;
  const timestamp = toIsoTimestamp(
    value.timestamp ?? value.time ?? value.loggedAt ?? value.createdAt ?? value.date);
  const message = typeof value.message === "string" ? value.message
    : typeof value.msg === "string" ? value.msg : `${method} ${pathValue}`;
  return { timestamp, method: method || "GET", statusCode, host, path: pathValue || "/",
    message: message.trim() || `${method} ${pathValue || "/"}`, remoteAddr, projectHint };
  \<close>
\<close>

definition requestLogLineOfJson :: "runtime \<Rightarrow> json \<Rightarrow> ParsedRequestLogLine" where
  "requestLogLineOfJson rt v =
     (let rawRequest = (case firstStringProp v [''request'', ''httpRequest''] of
                          None \<Rightarrow> [] | Some r \<Rightarrow> r);
          requestLine = parseRequestLine rawRequest;
          method = (case stringProp v ''method'' of
                      Some m \<Rightarrow> orElse (toUpperCase (trim m)) (fst requestLine)
                    | None \<Rightarrow> fst requestLine);
          pathValue = (case firstStringProp v [''path'', ''url'', ''requestPath''] of
                         Some p \<Rightarrow> orElse (trim p) (snd requestLine)
                       | None \<Rightarrow> snd requestLine);
          statusCode = coerceStatusCode (coalesce (getProp v ''statusCode'') (getProp v ''status''));
          host = (case firstStringProp v [''host'', ''hostname'', ''domain''] of
                    None \<Rightarrow> [] | Some h \<Rightarrow> h);
          remoteAddr = firstStringProp v [''remoteAddr'', ''ip'', ''clientIp''];
          projectHint = firstStringProp v [''projectSlug'', ''project'', ''projectName''];
          timestamp = toIsoTimestamp rt
            (coalesce (getProp v ''timestamp'') (coalesce (getProp v ''time'')
               (coalesce (getProp v ''loggedAt'') (coalesce (getProp v ''createdAt'')
                  (getProp v ''date'')))));
          message = (case firstStringProp v [''message'', ''msg''] of
                       Some m \<Rightarrow> m | None \<Rightarrow> method @ '' '' @ pathValue)
      in \<lparr>plTimestamp = timestamp,
          plMethod = orElse method ''GET'',
          plStatusCode = statusCode,
          plHost = host,
          plPath = orElse pathValue ''/'',
          plMessage = orElse (trim message) (method @ '' '' @ orElse pathValue ''/''),
          plRemoteAddr = remoteAddr,
          plProjectHint = projectHint\<rparr>)"

text \<open>
  \<^verbatim>\<open>
  function parseJsonRequestLogLine(line: string): ParsedRequestLogLine | null {
    if (!line.startsWith("{") || !line.endsWith("}")) { return null; }
    try {
      const value = JSON.parse(line) as Record<string, unknown>;
      ...
    } catch { return null; }
  }
  \<close>
  The \<open>catch\<close> takes the exception of \<open>JSON.parse\<close> and the one of reading a property of
  \<open>null\<close>.
\<close>

definition parseJsonRequestLogLine :: "runtime \<Rightarrow> string \<Rightarrow> ParsedRequestLogLine option" where
  "parseJsonRequestLogLine rt line =
     (if \<not> startsWith line ''{'' \<or> \<not> endsWith line ''}'' then None
      else (case jsonParse line of
              None \<Rightarrow> None
            | Some JNull \<Rightarrow> None
            | Some v \<Rightarrow> Some (requestLogLineOfJson rt v)))"

text \<open>One or more characters of a class, and what follows them.\<close>

definition spanRun :: "(char \<Rightarrow> bool) \<Rightarrow> string \<Rightarrow> (string \<times> string) option" where
  "spanRun P s = (if takeWhile P s = [] then None else Some (takeWhile P s, dropWhile P s))"

definition expectChar :: "char \<Rightarrow> string \<Rightarrow> string option" where
  "expectChar c s = (case s of [] \<Rightarrow> None | d # ds \<Rightarrow> if d = c then Some ds else None)"

text \<open>\<open>(?<status>\d{3}|-)\<close>.\<close>

definition statusGroup :: "string \<Rightarrow> (string \<times> string) option" where
  "statusGroup s =
     (if 3 \<le> length s \<and> list_all isDigit (take 3 s) then Some (take 3 s, drop 3 s)
      else (case s of [] \<Rightarrow> None | d # ds \<Rightarrow> if d = CHR ''-'' then Some (''-'', ds) else None))"

record combinedLogGroups =
  gRemote :: string
  gTime :: string
  gRequest :: string
  gStatus :: string
  gRest :: string

definition notSpace :: "char \<Rightarrow> bool" where
  "notSpace c = (\<not> isWhiteSpace c)"

text \<open>
  The match of a line against
  \<^verbatim>\<open>
  /^(?<remote>\S+)\s+\S+\s+\S+\s+\[(?<time>[^\]]+)\]\s+"(?<request>[^"]*)"\s+(?<status>\d{3}|-)\s+\S+(?<rest>.*)$/
  \<close>
  Each class is followed by a character outside it, so every greedy run is the maximal
  one and there is one way to match. \<open>.\<close> matches no line terminator.
\<close>

definition matchCombinedLog :: "string \<Rightarrow> combinedLogGroups option" where
  "matchCombinedLog line = do {
     (remote, r1) \<leftarrow> spanRun notSpace line;
     (w1, r2) \<leftarrow> spanRun isWhiteSpace r1;
     (f2, r3) \<leftarrow> spanRun notSpace r2;
     (w2, r4) \<leftarrow> spanRun isWhiteSpace r3;
     (f3, r5) \<leftarrow> spanRun notSpace r4;
     (w3, r6) \<leftarrow> spanRun isWhiteSpace r5;
     r7 \<leftarrow> expectChar CHR ''['' r6;
     (time, r8) \<leftarrow> spanRun (\<lambda>c. c \<noteq> CHR '']'') r7;
     r9 \<leftarrow> expectChar CHR '']'' r8;
     (w4, r10) \<leftarrow> spanRun isWhiteSpace r9;
     r11 \<leftarrow> expectChar dq r10;
     r12 \<leftarrow> expectChar dq (dropWhile (\<lambda>c. c \<noteq> dq) r11);
     (w5, r13) \<leftarrow> spanRun isWhiteSpace r12;
     (status, r14) \<leftarrow> statusGroup r13;
     (w6, r15) \<leftarrow> spanRun isWhiteSpace r14;
     (size, rest) \<leftarrow> spanRun notSpace r15;
     if list_ex isLineTerminator rest then None
     else Some \<lparr>gRemote = remote, gTime = time,
                 gRequest = takeWhile (\<lambda>c. c \<noteq> dq) r11, gStatus = status, gRest = rest\<rparr>
   }"

text \<open>\<open>[...rest.matchAll(/"([^"]*)"/g)].map((item) => item[1] ?? "")\<close>: the texts between
  successive pairs of double quotes. The state is the text since an opening quote.\<close>

fun quotedFieldsFrom :: "string option \<Rightarrow> string \<Rightarrow> string list" where
  "quotedFieldsFrom st [] = []"
| "quotedFieldsFrom None (c # cs) =
     (if c = dq then quotedFieldsFrom (Some []) cs else quotedFieldsFrom None cs)"
| "quotedFieldsFrom (Some acc) (c # cs) =
     (if c = dq then acc # quotedFieldsFrom None cs else quotedFieldsFrom (Some (acc @ [c])) cs)"

text \<open>\<open>/^\d{1,3}(\.\d{1,3}){3}$/\<close>.\<close>

definition isDottedQuad :: "string \<Rightarrow> bool" where
  "isDottedQuad s =
     (let parts = splitOn CHR ''.'' s
      in length parts = 4 \<and> list_all (\<lambda>p. p \<noteq> [] \<and> length p \<le> 3 \<and> list_all isDigit p) parts)"

text \<open>
  \<^verbatim>\<open>
  function extractHostFromQuotedFields(quotedFields: string[]): string {
    for (const field of quotedFields) {
      const value = (field ?? "").trim();
      if (!value || value === "-") continue;
      if (value.includes(" ")) continue;
      const normalized = normalizeHost(value);
      const looksLikeHost = normalized === "localhost" ||
        /^\d{1,3}(\.\d{1,3}){3}$/.test(normalized) || normalized.includes(".");
      if (normalized && looksLikeHost) { return normalized; }
    }
    return "";
  }
  \<close>
\<close>

fun extractHostFromQuotedFields :: "string list \<Rightarrow> string" where
  "extractHostFromQuotedFields [] = []"
| "extractHostFromQuotedFields (field # others) =
     (let v = trim field
      in if v = [] \<or> v = ''-'' then extractHostFromQuotedFields others
         else if includesStr v '' '' then extractHostFromQuotedFields others
         else let normalized = normalizeHost v;
                  looksLikeHost = (normalized = ''localhost'' \<or> isDottedQuad normalized
                                   \<or> includesStr normalized ''.'')
              in if normalized \<noteq> [] \<and> looksLikeHost then normalized
                 else extractHostFromQuotedFields others)"

text \<open>
  \<^verbatim>\<open>
  function parseNginxRequestLogLine(line: string): ParsedRequestLogLine | null {
    const match = line.match(/^(?<remote>\S+)...$/);
    if (!match?.groups) { return null; }
    const requestLine = parseRequestLine(match.groups.request ?? "");
    const statusCode = coerceStatusCode(match.groups.status);
    const rest = match.groups.rest ?? "";
    const quotedFields = [...rest.matchAll(/"([^"]*)"/g)].map((item) => item[1] ?? "");
    const hostCandidate = extractHostFromQuotedFields(quotedFields);
    return {
      timestamp: parseNginxTimestamp(match.groups.time ?? ""),
      method: requestLine.method, statusCode, host: hostCandidate, path: requestLine.path,
      message: `${requestLine.method} ${requestLine.path}`,
      remoteAddr: (match.groups.remote ?? "").trim() || undefined,
    };
  }
  \<close>
\<close>

definition parseNginxRequestLogLine :: "runtime \<Rightarrow> string \<Rightarrow> ParsedRequestLogLine option" where
  "parseNginxRequestLogLine rt line =
     (case matchCombinedLog line of
        None \<Rightarrow> None
      | Some groups \<Rightarrow>
          (let requestLine = parseRequestLine (gRequest groups);
               statusCode = coerceStatusCode (Some (JStr (gStatus groups)));
               quotedFields = quotedFieldsFrom None (gRest groups);
               hostCandidate = extractHostFromQuotedFields quotedFields
           in Some \<lparr>plTimestamp = parseNginxTimestamp rt (gTime groups),
                    plMethod = fst requestLine,
                    plStatusCode = statusCode,
                    plHost = hostCandidate,
                    plPath = snd requestLine,
                    plMessage = fst requestLine @ '' '' @ snd requestLine,
                    plRemoteAddr = (if trim (gRemote groups) \<noteq> [] then Some (trim (gRemote groups))
                                    else None),
                    plProjectHint = None\<rparr>))"

text \<open>
  \<^verbatim>\<open>
  function parseRequestLogLine(line: string): ParsedRequestLogLine | null {
    return parseJsonRequestLogLine(line) ?? parseNginxRequestLogLine(line);
  }
  \<close>
\<close>

definition parseRequestLogLine :: "runtime \<Rightarrow> string \<Rightarrow> ParsedRequestLogLine option" where
  "parseRequestLogLine rt line =
     (case parseJsonRequestLogLine rt line of
        Some parsed \<Rightarrow> Some parsed
      | None \<Rightarrow> parseNginxRequestLogLine rt line)"

section \<open>Attributing a log line to a project\<close>

text \<open>
  The first loop of \<open>resolveProjectSlugFromRequestLog\<close>, over the projects still to visit:
  \<^verbatim>\<open>
  for (const project of autoDeployProjects) {
    const previewHost = resolveProjectPreviewHost(project.projectSlug);
    if (previewHost && previewHost === normalizedHost) { return project.projectSlug; }
    const configuredHosts = resolveProjectConfiguredHosts(project.projectSlug);
    if (configuredHosts.includes(normalizedHost)) { return project.projectSlug; }
    const slugCanonical = projectSlugCanonicalValue(project.projectSlug);
    if (slugCanonical && hostLabels.some((label) => label === slugCanonical)) {
      return project.projectSlug;
    }
  }
  \<close>
\<close>

definition hostMatchesProject :: "runtime \<Rightarrow> config \<Rightarrow> string \<Rightarrow> string list
    \<Rightarrow> AutoDeployProjectConfig \<Rightarrow> bool" where
  "hostMatchesProject rt cfg normalizedHost hostLabels project =
     (let previewHost = resolveProjectPreviewHost rt cfg (projectSlug project);
          configuredHosts = resolveProjectConfiguredHosts cfg (projectSlug project);
          slugCanonical = projectSlugCanonicalValue (projectSlug project)
      in (previewHost \<noteq> [] \<and> previewHost = normalizedHost)
         \<or> normalizedHost \<in> set configuredHosts
         \<or> (slugCanonical \<noteq> [] \<and> slugCanonical \<in> set hostLabels))"

fun hostLoop :: "runtime \<Rightarrow> config \<Rightarrow> string \<Rightarrow> string list \<Rightarrow> AutoDeployProjectConfig list
    \<Rightarrow> string option" where
  "hostLoop rt cfg normalizedHost hostLabels [] = None"
| "hostLoop rt cfg normalizedHost hostLabels (project # rest) =
     (if hostMatchesProject rt cfg normalizedHost hostLabels project then Some (projectSlug project)
      else hostLoop rt cfg normalizedHost hostLabels rest)"

text \<open>
  The second loop:
  \<^verbatim>\<open>
  for (const project of autoDeployProjects) {
    const slugCanonical = projectSlugCanonicalValue(project.projectSlug);
    if (haystack.includes(project.projectSlug) ||
        (slugCanonical && canonicalHaystack.includes(slugCanonical))) {
      return project.projectSlug;
    }
  }
  \<close>
\<close>

definition textMatchesProject :: "string \<Rightarrow> string \<Rightarrow> AutoDeployProjectConfig \<Rightarrow> bool" where
  "textMatchesProject haystack canonicalHaystack project =
     (let slugCanonical = projectSlugCanonicalValue (projectSlug project)
      in includesStr haystack (projectSlug project)
         \<or> (slugCanonical \<noteq> [] \<and> includesStr canonicalHaystack slugCanonical))"

fun textLoop :: "string \<Rightarrow> string \<Rightarrow> AutoDeployProjectConfig list \<Rightarrow> string option" where
  "textLoop haystack canonicalHaystack [] = None"
| "textLoop haystack canonicalHaystack (project # rest) =
     (if textMatchesProject haystack canonicalHaystack project then Some (projectSlug project)
      else textLoop haystack canonicalHaystack rest)"

text \<open>The hint of a line, normalised: \<open>normalizeProject(entry.projectHint ?? "")\<close>.\<close>

definition hintOf :: "ParsedRequestLogLine \<Rightarrow> string" where
  "hintOf entry = normalizeProject (case plProjectHint entry of None \<Rightarrow> [] | Some h \<Rightarrow> h)"

text \<open>\<open>normalizedHost.split(".").map((label) => label.toLowerCase().replace(/[^a-z0-9]/g, ""))
  .filter((label) => label.length > 0)\<close>.\<close>

definition hostLabelsOf :: "string \<Rightarrow> string list" where
  "hostLabelsOf normalizedHost =
     filter (\<lambda>label. label \<noteq> [])
       (map (\<lambda>label. filter isLowerAlnum (toLowerCase label)) (splitOn CHR ''.'' normalizedHost))"

text \<open>\<open>`${entry.path} ${entry.message} ${normalizedHost}`.toLowerCase()\<close>.\<close>

definition haystackOf :: "ParsedRequestLogLine \<Rightarrow> string" where
  "haystackOf entry =
     toLowerCase (plPath entry @ '' '' @ plMessage entry @ '' '' @ normalizeHost (plHost entry))"

text \<open>
  \<^verbatim>\<open>
  function resolveProjectSlugFromRequestLog(entry: ParsedRequestLogLine): string {
    const hint = normalizeProject(entry.projectHint ?? "");
    if (hint) {
      if (autoDeployProjectsBySlug.has(hint)) { return hint; }
      if (autoDeployProjects.length === 0 && hint === fallbackProjectSlug) { return hint; }
    }
    const normalizedHost = normalizeHost(entry.host);
    if (normalizedHost) {
      const hostLabels = ...;
      for (const project of autoDeployProjects) { ... }
      if (autoDeployProjects.length === 0) {
        const fallbackHost = resolveProjectPreviewHost(fallbackProjectSlug);
        if (fallbackHost && fallbackHost === normalizedHost) { return fallbackProjectSlug; }
      }
    }
    const haystack = `${entry.path} ${entry.message} ${normalizedHost}`.toLowerCase();
    const canonicalHaystack = haystack.replace(/[^a-z0-9]/g, "");
    for (const project of autoDeployProjects) { ... }
    if (autoDeployProjects.length === 1) { return autoDeployProjects[0]?.projectSlug ?? ""; }
    if (autoDeployProjects.length === 0) { return fallbackProjectSlug; }
    return "";
  }
  \<close>
\<close>

definition resolveProjectSlugFromRequestLog :: "runtime \<Rightarrow> config \<Rightarrow> ParsedRequestLogLine \<Rightarrow> string" where
  "resolveProjectSlugFromRequestLog rt cfg entry =
     (let hint = hintOf entry;
          normalizedHost = normalizeHost (plHost entry);
          haystack = haystackOf entry;
          canonicalHaystack = filter isLowerAlnum haystack
      in if hint \<noteq> [] \<and> autoDeployProjectsBySlug cfg hint \<noteq> None then hint
         else if hint \<noteq> [] \<and> autoDeployProjects cfg = [] \<and> hint = fallbackProjectSlug then hint
         else case (if normalizedHost \<noteq> []
                    then (case hostLoop rt cfg normalizedHost (hostLabelsOf normalizedHost)
                                 (autoDeployProjects cfg) of
                            Some slug \<Rightarrow> Some slug
                          | None \<Rightarrow>
                              if autoDeployProjects cfg = []
                                 \<and> resolveProjectPreviewHost rt cfg fallbackProjectSlug \<noteq> []
                                 \<and> resolveProjectPreviewHost rt cfg fallbackProjectSlug = normalizedHost
                              then Some fallbackProjectSlug else None)
                    else None) of
                Some slug \<Rightarrow> slug
              | None \<Rightarrow>
                  (case textLoop haystack canonicalHaystack (autoDeployProjects cfg) of
                     Some slug \<Rightarrow> slug
                   | None \<Rightarrow>
                       (case autoDeployProjects cfg of
                          [] \<Rightarrow> fallbackProjectSlug
                        | [project] \<Rightarrow> projectSlug project
                        | _ \<Rightarrow> [])))"

section \<open>Reading the access log\<close>

text \<open>
  \<^verbatim>\<open>
  function isControlPlaneRequestPath(pathValue: string): boolean {
    const normalizedPath = pathValue.trim().toLowerCase().split("?")[0] ?? "";
    if (!normalizedPath) return false;
    const match = normalizedPath.match(/^\/(?:api\/)?v1\/([^/]+)/);
    if (!match) { return normalizedPath === "/v1" || normalizedPath === "/api/v1"; }
    const root = match[1] ?? "";
    return root === "projects" || root === "logs" || root === "webhooks" ||
      root === "deployments" || root === "oauth";
  }
  \<close>
\<close>

definition isControlPlaneRequestPath :: "string \<Rightarrow> bool" where
  "isControlPlaneRequestPath pathValue =
     (let normalizedPath = hd (splitOn CHR ''?'' (toLowerCase (trim pathValue)));
          afterPrefix = (if startsWith normalizedPath ''/api/v1/'' then Some (drop 8 normalizedPath)
                         else if startsWith normalizedPath ''/v1/'' then Some (drop 4 normalizedPath)
                         else None);
          root = (case afterPrefix of
                    None \<Rightarrow> []
                  | Some t \<Rightarrow> takeWhile (\<lambda>c. c \<noteq> CHR ''/'') t)
      in if normalizedPath = [] then False
         else if root = [] then normalizedPath = ''/v1'' \<or> normalizedPath = ''/api/v1''
         else root \<in> set [''projects'', ''logs'', ''webhooks'', ''deployments'', ''oauth''])"

text \<open>
  \<^verbatim>\<open>
  function isDashboardUsageRequest(host: string, pathValue: string): boolean {
    const normalizedHost = normalizeHost(host);
    if (isControlPlaneRequestPath(pathValue)) { return true; }
    if (normalizedHost && dashboardKnownHosts.has(normalizedHost)) { return true; }
    return false;
  }
  \<close>
\<close>

definition isDashboardUsageRequest :: "config \<Rightarrow> string \<Rightarrow> string \<Rightarrow> bool" where
  "isDashboardUsageRequest cfg host pathValue =
     (let normalizedHost = normalizeHost host
      in isControlPlaneRequestPath pathValue
         \<or> (normalizedHost \<noteq> [] \<and> normalizedHost \<in> set (dashboardKnownHosts cfg)))"

record RequestLogEntry =
  leLogId :: string
  leTimestamp :: string
  leMethod :: string
  leStatusCode :: "int option"
  leHost :: string
  lePath :: string
  leMessage :: string
  leProjectSlug :: string
  leProjectName :: string
  leRemoteAddr :: "string option"

text \<open>The decimal digits of a whole number, as in a template string.\<close>

function showNat :: "int \<Rightarrow> string" where
  "showNat n = (if n < 10 then [char_of (48 + n)] else showNat (n div 10) @ [char_of (48 + n mod 10)])"
  by pat_completeness auto
termination
  by (relation "measure nat") auto

declare showNat.simps [simp del]

definition showInt :: "int \<Rightarrow> string" where
  "showInt n = (if n < 0 then ''-'' @ showNat (- n) else showNat n)"

text \<open>\<open>Date.parse(text)\<close> with NaN replaced by 0.\<close>

definition epochOrZero :: "runtime \<Rightarrow> string \<Rightarrow> int" where
  "epochOrZero rt text = (case dateParse rt text of None \<Rightarrow> 0 | Some ms \<Rightarrow> ms)"

text \<open>
  The body of the loop of \<open>parseRequestLogEntries\<close> for the line at \<open>index\<close>: the entry it
  pushes, or \<open>None\<close> when it continues with the next line.
  \<^verbatim>\<open>
  const parsedLine = parseRequestLogLine(line);
  if (!parsedLine) { continue; }
  const normalizedParsedHost = normalizeHost(parsedLine.host);
  const normalizedParsedPath = parsedLine.path.trim() || "/";
  if (isDashboardUsageRequest(normalizedParsedHost, normalizedParsedPath)) { continue; }
  const inferredProjectSlug = resolveProjectSlugFromRequestLog(parsedLine);
  if (!inferredProjectSlug) { continue; }
  if (normalizedRequestedProject && inferredProjectSlug !== normalizedRequestedProject) { continue; }
  const resolvedProjectSlug = inferredProjectSlug;
  const timestamp = parsedLine.timestamp ?? new Date().toISOString();
  const method = parsedLine.method.trim().toUpperCase() || "GET";
  const pathValue = normalizedParsedPath;
  const host = normalizedParsedHost || resolveProjectPreviewHost(resolvedProjectSlug) || localServerHost;
  const message = parsedLine.message.trim() || `${method} ${pathValue}`;
  const statusCode = parsedLine.statusCode;
  const epoch = Date.parse(timestamp);
  const stableEpoch = Number.isNaN(epoch) ? 0 : epoch;
  if (typeof startMs === "number" && stableEpoch < startMs) { continue; }
  if (typeof endMs === "number" && stableEpoch > endMs) { continue; }
  parsedEntries.push({ logId: `${resolvedProjectSlug}-${stableEpoch}-${index}`, ... });
  \<close>
\<close>

definition entryOfLine :: "runtime \<Rightarrow> config \<Rightarrow> string option \<Rightarrow> int option \<Rightarrow> int option
    \<Rightarrow> nat \<times> string \<Rightarrow> RequestLogEntry option" where
  "entryOfLine rt cfg normalizedRequestedProject startMs endMs indexedLine =
     (case parseRequestLogLine rt (snd indexedLine) of
        None \<Rightarrow> None
      | Some parsedLine \<Rightarrow>
          (let normalizedParsedHost = normalizeHost (plHost parsedLine);
               normalizedParsedPath = orElse (trim (plPath parsedLine)) ''/'';
               inferredProjectSlug = resolveProjectSlugFromRequestLog rt cfg parsedLine;
               timestamp = (case plTimestamp parsedLine of
                              Some t \<Rightarrow> t | None \<Rightarrow> toISOString rt (dateNow rt));
               method = orElse (toUpperCase (trim (plMethod parsedLine))) ''GET'';
               host = orElse normalizedParsedHost
                        (orElse (resolveProjectPreviewHost rt cfg inferredProjectSlug)
                           (localServerHost cfg));
               message = orElse (trim (plMessage parsedLine)) (method @ '' '' @ normalizedParsedPath);
               stableEpoch = epochOrZero rt timestamp
           in if isDashboardUsageRequest cfg normalizedParsedHost normalizedParsedPath then None
              else if inferredProjectSlug = [] then None
              else if (case normalizedRequestedProject of
                         None \<Rightarrow> False
                       | Some requested \<Rightarrow> requested \<noteq> [] \<and> inferredProjectSlug \<noteq> requested)
              then None
              else if (case startMs of None \<Rightarrow> False | Some start \<Rightarrow> stableEpoch < start) then None
              else if (case endMs of None \<Rightarrow> False | Some end \<Rightarrow> end < stableEpoch) then None
              else Some \<lparr>leLogId = inferredProjectSlug @ ''-'' @ showInt stableEpoch @ ''-''
                                    @ showInt (int (fst indexedLine)),
                         leTimestamp = timestamp,
                         leMethod = method,
                         leStatusCode = plStatusCode parsedLine,
                         leHost = host,
                         lePath = normalizedParsedPath,
                         leMessage = message,
                         leProjectSlug = inferredProjectSlug,
                         leProjectName = resolveProjectName cfg inferredProjectSlug,
                         leRemoteAddr = plRemoteAddr parsedLine\<rparr>))"

text \<open>\<open>raw.split("\n").map((line) => line.trim()).filter((line) => line.length > 0)\<close>.\<close>

definition linesOf :: "string \<Rightarrow> string list" where
  "linesOf raw = filter (\<lambda>line. line \<noteq> []) (map trim (splitOn newline raw))"

text \<open>\<open>Array.prototype.slice(0, limit)\<close> for a whole number \<open>limit\<close>.\<close>

definition sliceTo :: "int \<Rightarrow> 'a list \<Rightarrow> 'a list" where
  "sliceTo limit xs =
     (if limit < 0 then take (length xs - nat (- limit)) xs else take (nat limit) xs)"

text \<open>
  \<^verbatim>\<open>
  function parseRequestLogEntries(raw, requestedProjectSlug, limit, startMs?, endMs?) {
    const normalizedRequestedProject = requestedProjectSlug
      ? resolveProjectSlug(requestedProjectSlug) : undefined;
    const lines = raw.split("\n").map((line) => line.trim()).filter((line) => line.length > 0);
    const parsedEntries: RequestLogEntry[] = [];
    for (const [index, line] of lines.entries()) { ... }
    return parsedEntries
      .sort((left, right) => requestLogTimestamp(right) - requestLogTimestamp(left))
      .slice(0, limit);
  }
  \<close>
  The sort is stable and descending in the time of the entry.
\<close>

definition parseRequestLogEntries :: "runtime \<Rightarrow> config \<Rightarrow> string \<Rightarrow> string option \<Rightarrow> int
    \<Rightarrow> int option \<Rightarrow> int option \<Rightarrow> RequestLogEntry list" where
  "parseRequestLogEntries rt cfg raw requestedProjectSlug limit startMs endMs =
     (let normalizedRequestedProject =
            (case requestedProjectSlug of
               None \<Rightarrow> None
             | Some r \<Rightarrow> if r = [] then None else Some (resolveProjectSlug cfg (Some r)));
          parsedEntries = List.map_filter
            (entryOfLine rt cfg normalizedRequestedProject startMs endMs)
            (enumerate 0 (linesOf raw))
      in sliceTo limit (sort_key (\<lambda>entry. - epochOrZero rt (leTimestamp entry)) parsedEntries))"

section \<open>Reading the deployment tracker\<close>

record Deployment =
  deploymentId :: string
  dEnvironment :: json
  dStatus :: json
  dDuration :: json
  dProjectName :: string
  dBranch :: json
  dCommitHash :: json
  dCommitMessage :: json
  dTrackedAt :: json
  dCommitAt :: "json option"
  createdRelative :: string
  dAuthor :: string
  dServerHost :: json

text \<open>\<open>entry.field ?? fallback\<close> for a field that the code does not convert: the value
  of the line when it is present and not \<open>null\<close>.\<close>

definition fieldOr :: "json \<Rightarrow> string \<Rightarrow> json \<Rightarrow> json" where
  "fieldOr entry key fallback =
     (case coalesce (getProp entry key) (Some fallback) of None \<Rightarrow> fallback | Some v \<Rightarrow> v)"

text \<open>A field on which the code calls a string method: a string, the fallback for
  \<open>null\<close> and \<open>undefined\<close>, and an exception for any other value.\<close>

definition stringFieldOr :: "json \<Rightarrow> string \<Rightarrow> string \<Rightarrow> exn + string" where
  "stringFieldOr entry key fallback =
     (case coalesce (getProp entry key) (Some (JStr fallback)) of
        Some (JStr s) \<Rightarrow> Inr s
      | _ \<Rightarrow> Inl TypeError)"

text \<open>
  \<^verbatim>\<open>
  const mapAuthor = (author: string): string => {
    if (author.toLowerCase().includes("hello-cms-ai")) { return "vserver"; }
    return author;
  };
  \<close>
\<close>

definition mapAuthor :: "string \<Rightarrow> string" where
  "mapAuthor author = (if includesStr (toLowerCase author) ''hello-cms-ai'' then ''vserver'' else author)"

text \<open>
  \<^verbatim>\<open>
  function toRelativeTime(isoTime: string): string {
    const target = new Date(isoTime).getTime();
    if (Number.isNaN(target)) return "just now";
    const diffSec = Math.floor((Date.now() - target) / 1000);
    if (diffSec < 60) return "just now";
    const diffMin = Math.floor(diffSec / 60);
    if (diffMin < 60) return `${diffMin} min ago`;
    const diffHr = Math.floor(diffMin / 60);
    if (diffHr < 24) return `${diffHr}h ago`;
    const diffDay = Math.floor(diffHr / 24);
    return `${diffDay}d ago`;
  }
  \<close>
  The caller passes the \<open>trackedAt\<close> of the line unchecked, so the argument is any JSON
  value.
\<close>

definition toRelativeTime :: "runtime \<Rightarrow> json \<Rightarrow> string" where
  "toRelativeTime rt isoTime =
     (case newDate rt isoTime of
        None \<Rightarrow> ''just now''
      | Some target \<Rightarrow>
          (let diffSec = (dateNow rt - target) div 1000;
               diffMin = diffSec div 60;
               diffHr = diffMin div 60;
               diffDay = diffHr div 24
           in if diffSec < 60 then ''just now''
              else if diffMin < 60 then showInt diffMin @ '' min ago''
              else if diffHr < 24 then showInt diffHr @ ''h ago''
              else showInt diffDay @ ''d ago''))"

text \<open>
  The body of the loop of \<open>parseTrackerEntries\<close> for one line: the deployment it pushes,
  or \<open>None\<close> when the line is skipped, by \<open>continue\<close> or by the \<open>catch\<close>.
  \<^verbatim>\<open>
  try {
    const entry = JSON.parse(line) as TrackerEntry;
    const entryProject = normalizeProject(entry.projectName ?? "");
    if (!entryProject || entryProject !== expectedProjectSlug) { continue; }
    const trackedAt = entry.trackedAt ?? new Date().toISOString();
    parsed.push({
      deploymentId: (entry.deploymentId ?? "unknown").toUpperCase(),
      environment: entry.environment ?? "Production",
      status: entry.status ?? "Ready",
      duration: entry.duration ?? "n/a",
      projectName: expectedProjectName,
      branch: entry.branch ?? "main",
      commitHash: entry.commitHash ?? "unknown",
      commitMessage: entry.commitMessage ?? "",
      trackedAt,
      commitAt: entry.commitAt,
      createdRelative: toRelativeTime(trackedAt),
      author: mapAuthor(entry.author ?? "unknown"),
      serverHost: entry.serverHost ?? localServerHost,
      source: "server-tracker",
    });
  } catch { /* skip malformed lines */ }
  \<close>
\<close>

definition deploymentOfLine :: "runtime \<Rightarrow> config \<Rightarrow> string \<Rightarrow> string \<Rightarrow> string \<Rightarrow> Deployment option" where
  "deploymentOfLine rt cfg expectedProjectSlug expectedProjectName line =
     (case jsonParse line of
        None \<Rightarrow> None
      | Some JNull \<Rightarrow> None
      | Some entry \<Rightarrow>
          (case stringFieldOr entry ''projectName'' [] of
             Inl e \<Rightarrow> None
           | Inr rawProjectName \<Rightarrow>
               if normalizeProject rawProjectName = []
                  \<or> normalizeProject rawProjectName \<noteq> expectedProjectSlug
               then None
               else (case stringFieldOr entry ''deploymentId'' ''unknown'' of
                       Inl e \<Rightarrow> None
                     | Inr rawId \<Rightarrow>
                         (case stringFieldOr entry ''author'' ''unknown'' of
                            Inl e \<Rightarrow> None
                          | Inr rawAuthor \<Rightarrow>
                              (let trackedAt = fieldOr entry ''trackedAt''
                                                 (JStr (toISOString rt (dateNow rt)))
                               in Some \<lparr>deploymentId = toUpperCase rawId,
                                        dEnvironment = fieldOr entry ''environment'' (JStr ''Production''),
                                        dStatus = fieldOr entry ''status'' (JStr ''Ready''),
                                        dDuration = fieldOr entry ''duration'' (JStr ''n/a''),
                                        dProjectName = expectedProjectName,
                                        dBranch = fieldOr entry ''branch'' (JStr ''main''),
                                        dCommitHash = fieldOr entry ''commitHash'' (JStr ''unknown''),
                                        dCommitMessage = fieldOr entry ''commitMessage'' (JStr []),
                                        dTrackedAt = trackedAt,
                                        dCommitAt = getProp entry ''commitAt'',
                                        createdRelative = toRelativeTime rt trackedAt,
                                        dAuthor = mapAuthor rawAuthor,
                                        dServerHost = fieldOr entry ''serverHost''
                                                        (JStr (localServerHost cfg))\<rparr>)))))"

text \<open>
  \<^verbatim>\<open>
  function parseTrackerEntries(raw: string, expectedProjectSlug: string,
      expectedProjectName: string): Deployment[] {
    const lines = raw.split("\n").map((line) => line.trim()).filter((line) => line.length > 0);
    const parsed: Deployment[] = [];
    for (const line of lines) { ... }
    return parsed.reverse();
  }
  \<close>
\<close>

definition parseTrackerEntries :: "runtime \<Rightarrow> config \<Rightarrow> string \<Rightarrow> string \<Rightarrow> string \<Rightarrow> Deployment list" where
  "parseTrackerEntries rt cfg raw expectedProjectSlug expectedProjectName =
     rev (List.map_filter (deploymentOfLine rt cfg expectedProjectSlug expectedProjectName)
            (linesOf raw))"

text \<open>
  \<open>readLocalTracker\<close> and \<open>readRemoteTracker\<close>, from the text of the log on:
  \<open>parseTrackerEntries(content, expectedProjectSlug, resolveProjectName(expectedProjectSlug))
  .slice(0, limit)\<close>.
\<close>

definition readTracker :: "runtime \<Rightarrow> config \<Rightarrow> string \<Rightarrow> string \<Rightarrow> int \<Rightarrow> Deployment list" where
  "readTracker rt cfg content expectedProjectSlug limit =
     sliceTo limit
       (parseTrackerEntries rt cfg content expectedProjectSlug
          (resolveProjectName cfg expectedProjectSlug))"

section \<open>The attribution rules in the words of the specification\<close>

text \<open>
  A line matches a hint when its project hint normalises to a configured slug (or, with
  no project configured, to the fallback slug); it matches a host when its normalised
  host is not empty and is the preview host, a configured domain or a label of some
  project; it matches a slug substring when the slug of some project, or its canonical
  form, occurs in the lower-cased text of path, message and host.
\<close>

definition matchesHint :: "config \<Rightarrow> ParsedRequestLogLine \<Rightarrow> bool" where
  "matchesHint cfg entry =
     (hintOf entry \<noteq> []
      \<and> (autoDeployProjectsBySlug cfg (hintOf entry) \<noteq> None
         \<or> (autoDeployProjects cfg = [] \<and> hintOf entry = fallbackProjectSlug)))"

definition matchesHost :: "runtime \<Rightarrow> config \<Rightarrow> ParsedRequestLogLine \<Rightarrow> bool" where
  "matchesHost rt cfg entry =
     (normalizeHost (plHost entry) \<noteq> []
      \<and> list_ex (hostMatchesProject rt cfg (normalizeHost (plHost entry))
                   (hostLabelsOf (normalizeHost (plHost entry))))
           (autoDeployProjects cfg))"

definition matchesText :: "config \<Rightarrow> ParsedRequestLogLine \<Rightarrow> bool" where
  "matchesText cfg entry =
     list_ex (textMatchesProject (haystackOf entry) (filter isLowerAlnum (haystackOf entry)))
       (autoDeployProjects cfg)"

text \<open>The two projects of the specification's example: \<open>acme-app\<close> with the domain
  \<open>acme.example.com\<close>, and \<open>beta-app\<close> without a domain.\<close>

definition acmeApp :: AutoDeployProjectConfig where
  "acmeApp =
     \<lparr>projectName = ''Acme App'', projectSlug = ''acme-app'', repository = ''org/acme-app'',
      repositoryCanonical = ''acmeapp'', branch = ''main'', repoPath = ''/var/www/projects/web/acme-app'',
      deployCommand = ''make deploy'', environment = ''Production'', remoteHost = None,
      domains = [''acme.example.com'']\<rparr>"

definition betaApp :: AutoDeployProjectConfig where
  "betaApp =
     \<lparr>projectName = ''Beta App'', projectSlug = ''beta-app'', repository = ''org/beta-app'',
      repositoryCanonical = ''betaapp'', branch = ''main'', repoPath = ''/var/www/projects/web/beta-app'',
      deployCommand = ''make deploy'', environment = ''Production'', remoteHost = None,
      domains = []\<rparr>"

text \<open>A line of the access log without a host field whose path mentions both slugs.\<close>

definition bothSlugsLine :: string where
  "bothSlugsLine = ''203.0.113.9 - - [10/Oct/2000:13:55:36 -0700] ''
     @ [dq] @ ''GET /beta-app/?ref=acme-app HTTP/1.1'' @ [dq] @ '' 200 512''"

text \<open>A JSON line of the access log for the host of \<open>acme-app\<close> with a hint for \<open>beta-app\<close>:
  \<^verbatim>\<open>{"host":"acme.example.com","project":"beta-app","path":"/"}\<close>\<close>

definition hintedLine :: string where
  "hintedLine = ''{'' @ [dq] @ ''host'' @ [dq] @ '':'' @ [dq] @ ''acme.example.com'' @ [dq]
     @ '','' @ [dq] @ ''project'' @ [dq] @ '':'' @ [dq] @ ''beta-app'' @ [dq]
     @ '','' @ [dq] @ ''path'' @ [dq] @ '':'' @ [dq] @ ''/'' @ [dq] @ ''}''"

text \<open>Three lines: one for the host of \<open>acme-app\<close>, one without a host under
  \<open>/beta-app/\<close>, and one for a host and a path that belong to no project.\<close>

definition acmeHostLine :: string where
  "acmeHostLine = ''203.0.113.9 - - [10/Oct/2000:13:55:36 -0700] ''
     @ [dq] @ ''GET /index.html HTTP/1.1'' @ [dq] @ '' 200 512 '' @ [dq] @ ''-'' @ [dq]
     @ '' '' @ [dq] @ ''curl/8.0'' @ [dq] @ '' '' @ [dq] @ ''acme.example.com'' @ [dq]"

definition betaPathLine :: string where
  "betaPathLine = ''203.0.113.9 - - [10/Oct/2000:13:55:36 -0700] ''
     @ [dq] @ ''GET /beta-app/index.html HTTP/1.1'' @ [dq] @ '' 200 512''"

definition strangerLine :: string where
  "strangerLine = ''203.0.113.9 - - [10/Oct/2000:13:55:36 -0700] ''
     @ [dq] @ ''GET /other HTTP/1.1'' @ [dq] @ '' 404 0 '' @ [dq] @ ''-'' @ [dq]
     @ '' '' @ [dq] @ ''curl/8.0'' @ [dq] @ '' '' @ [dq] @ ''other.example.org'' @ [dq]"

section \<open>Lines that parse\<close>

text \<open>A parseable JSON object line: it starts with \<open>{\<close>, ends with \<open>}\<close>, and \<open>JSON.parse\<close>
  gives a value.\<close>

definition parseableJsonObjectLine :: "string \<Rightarrow> bool" where
  "parseableJsonObjectLine line =
     (startsWith line ''{'' \<and> endsWith line ''}''
      \<and> (case jsonParse line of None \<Rightarrow> False | Some v \<Rightarrow> v \<noteq> JNull))"

text \<open>A tracker line whose \<open>projectName\<close> is not written as the configured display name:
  \<^verbatim>\<open>{"projectName":"ACME  app!","deploymentId":"dep-1","status":"Ready"}\<close>\<close>

definition trackerLine :: string where
  "trackerLine = ''{'' @ [dq] @ ''projectName'' @ [dq] @ '':'' @ [dq] @ ''ACME  app!'' @ [dq]
     @ '','' @ [dq] @ ''deploymentId'' @ [dq] @ '':'' @ [dq] @ ''dep-1'' @ [dq]
     @ '','' @ [dq] @ ''status'' @ [dq] @ '':'' @ [dq] @ ''Ready'' @ [dq] @ ''}''"

section \<open>Properties of slug normalisation\<close>

lemma hyphen_not_alnum [simp]: "\<not> isLowerAlnum CHR ''-''"
  by (simp add: isLowerAlnum_def code_def)

lemma slugChar_not_space: "slugChar c \<Longrightarrow> \<not> isWhiteSpace c"
  by (auto simp: slugChar_def isLowerAlnum_def isHyphen_def isWhiteSpace_def code_def)

lemma slugChar_lower: "slugChar c \<Longrightarrow> toLowerChar c = c"
  by (auto simp: slugChar_def isLowerAlnum_def isHyphen_def toLowerChar_def code_def)

text \<open>No two hyphens in a row, as a recursive predicate.\<close>

fun singleHyphens :: "string \<Rightarrow> bool" where
  "singleHyphens [] = True"
| "singleHyphens [a] = True"
| "singleHyphens (a # b # cs) = ((isHyphen a \<longrightarrow> \<not> isHyphen b) \<and> singleHyphens (b # cs))"

lemma singleHyphens_includes: "singleHyphens s \<longleftrightarrow> \<not> includesStr s ''--''"
  by (induction s rule: singleHyphens.induct) (auto simp: isHyphen_def)

lemma replace_slugChars: "list_all slugChar (replaceNonAlnumRuns r s)"
  by (induction s arbitrary: r) (auto simp: slugChar_def isHyphen_def)

lemma replace_head:
  "replaceNonAlnumRuns True s = [] \<or> \<not> isHyphen (hd (replaceNonAlnumRuns True s))"
  by (induction s) (auto simp: isHyphen_def)

lemma replace_single: "singleHyphens (replaceNonAlnumRuns r s)"
proof (induction s arbitrary: r)
  case Nil
  show ?case by simp
next
  case (Cons c cs)
  show ?case
  proof (cases "isLowerAlnum c")
    case True
    have "singleHyphens (c # replaceNonAlnumRuns False cs)"
      using Cons.IH [of False] True
      by (cases "replaceNonAlnumRuns False cs") (auto simp: isHyphen_def)
    with True show ?thesis by simp
  next
    case False
    have "singleHyphens (CHR ''-'' # replaceNonAlnumRuns True cs)"
      using Cons.IH [of True] replace_head [of cs]
      by (cases "replaceNonAlnumRuns True cs") auto
    with False Cons.IH [of True] show ?thesis by simp
  qed
qed

lemma singleHyphens_dropWhile: "singleHyphens s \<Longrightarrow> singleHyphens (dropWhile P s)"
  by (induction s rule: singleHyphens.induct) auto

lemma dropWhile_rev_prefix: "prefix (rev (dropWhile P (rev s))) s"
proof -
  have "rev s = takeWhile P (rev s) @ dropWhile P (rev s)" by simp
  then have "s = rev (dropWhile P (rev s)) @ rev (takeWhile P (rev s))"
    by (metis rev_append rev_rev_ident)
  then show ?thesis by (metis prefixI)
qed

lemma singleHyphens_prefix: "singleHyphens s \<Longrightarrow> prefix p s \<Longrightarrow> singleHyphens p"
proof (induction s arbitrary: p rule: singleHyphens.induct)
  case (3 a b cs)
  show ?case
  proof (cases p)
    case Nil
    then show ?thesis by simp
  next
    case (Cons x q)
    with "3.prems" have x: "x = a" and q: "prefix q (b # cs)" by auto
    from "3.prems" "3.IH" q have "singleHyphens q" by simp
    with "3.prems" x q Cons show ?thesis by (cases q) auto
  qed
next
  case 1
  then show ?case by simp
next
  case (2 c)
  then show ?case by (cases p) auto
qed

lemma stripHyphens_single: "singleHyphens s \<Longrightarrow> singleHyphens (stripHyphens s)"
  unfolding stripHyphens_def
  by (rule singleHyphens_prefix [OF singleHyphens_dropWhile dropWhile_rev_prefix])

lemma list_all_dropWhile: "list_all P s \<Longrightarrow> list_all P (dropWhile Q s)"
  by (induction s) auto

lemma stripHyphens_slugChars: "list_all slugChar s \<Longrightarrow> list_all slugChar (stripHyphens s)"
  by (simp add: stripHyphens_def list_all_dropWhile)

lemma dropWhile_head: "dropWhile P s = [] \<or> \<not> P (hd (dropWhile P s))"
  by (induction s) auto

lemma stripHyphens_no_trailing: "stripHyphens s = [] \<or> \<not> isHyphen (last (stripHyphens s))"
  using dropWhile_head [of isHyphen "rev (dropWhile isHyphen s)"]
  by (auto simp: stripHyphens_def last_rev)

lemma dropWhile_rev_hd:
  assumes "s \<noteq> []" "\<not> P (hd s)" "rev (dropWhile P (rev s)) \<noteq> []"
  shows "hd (rev (dropWhile P (rev s))) = hd s"
proof -
  obtain ys where "s = rev (dropWhile P (rev s)) @ ys"
    using dropWhile_rev_prefix [of P s] by (auto simp: prefix_def)
  with assms(3) show ?thesis
    by (metis hd_append2)
qed

lemma stripHyphens_no_leading: "stripHyphens s = [] \<or> \<not> isHyphen (hd (stripHyphens s))"
proof (cases "stripHyphens s = []")
  case False
  let ?d = "dropWhile isHyphen s"
  have d: "?d \<noteq> []"
  proof
    assume "?d = []"
    then have "stripHyphens s = []"
      unfolding stripHyphens_def by (simp only: rev.simps dropWhile.simps)
    with False show False by simp
  qed
  with dropWhile_head [of isHyphen s] have "\<not> isHyphen (hd ?d)" by blast
  moreover have "hd (stripHyphens s) = hd ?d"
    using dropWhile_rev_hd [of ?d isHyphen] d \<open>\<not> isHyphen (hd ?d)\<close> False
    by (simp add: stripHyphens_def)
  ultimately show ?thesis by simp
qed simp

text \<open>A well-formed slug: only \<open>[a-z0-9-]\<close>, no hyphen first or last, no two in a row.\<close>

definition wellFormedSlug :: "string \<Rightarrow> bool" where
  "wellFormedSlug t =
     (list_all slugChar t \<and> \<not> startsWith t ''-'' \<and> \<not> endsWith t ''-'' \<and> \<not> includesStr t ''--'')"

lemma startsWith_hyphen: "startsWith t ''-'' \<longleftrightarrow> t \<noteq> [] \<and> isHyphen (hd t)"
  by (cases t) (auto simp: startsWith_def isHyphen_def)

lemma endsWith_hyphen: "endsWith t ''-'' \<longleftrightarrow> t \<noteq> [] \<and> isHyphen (last t)"
  by (cases t rule: rev_cases) (auto simp: endsWith_def isHyphen_def)

lemma normalizeProject_wellFormed: "wellFormedSlug (normalizeProject s)"
  unfolding wellFormedSlug_def normalizeProject_def
  using stripHyphens_no_leading stripHyphens_no_trailing
  by (auto simp: startsWith_hyphen endsWith_hyphen stripHyphens_slugChars replace_slugChars
      simp flip: singleHyphens_includes intro!: stripHyphens_single replace_single)

lemma trim_slug:
  assumes "list_all slugChar t"
  shows "trim t = t"
proof -
  have "dropWhile isWhiteSpace u = u" if "list_all slugChar u" for u
    using that by (cases u) (auto dest: slugChar_not_space)
  moreover have "list_all slugChar (rev t)" using assms by simp
  ultimately show ?thesis using assms by (simp add: trim_def trimStart_def trimEnd_def)
qed

lemma toLowerCase_slug: "list_all slugChar t \<Longrightarrow> toLowerCase t = t"
  by (induction t) (auto simp: toLowerCase_def slugChar_lower)

lemma replace_slug:
  "list_all slugChar t \<Longrightarrow> singleHyphens t \<Longrightarrow>
   replaceNonAlnumRuns False t = t \<and> (t \<noteq> [] \<longrightarrow> \<not> isHyphen (hd t) \<longrightarrow> replaceNonAlnumRuns True t = t)"
proof (induction t rule: singleHyphens.induct)
  case (3 a b cs)
  then show ?case
    by (auto simp: slugChar_def isHyphen_def)
next
  case 1
  show ?case by simp
next
  case (2 c)
  then show ?case by (auto simp: slugChar_def isHyphen_def)
qed

lemma dropWhile_id_hd: "xs = [] \<or> \<not> P (hd xs) \<Longrightarrow> dropWhile P xs = xs"
  by (cases xs) auto

lemma stripHyphens_slug:
  assumes "\<not> startsWith t ''-''" "\<not> endsWith t ''-''"
  shows "stripHyphens t = t"
proof (cases t)
  case Nil
  then show ?thesis by (simp add: stripHyphens_def)
next
  case (Cons c cs)
  with assms(1) have "dropWhile isHyphen t = t"
    by (simp add: startsWith_hyphen)
  moreover have "\<not> isHyphen (hd (rev t))"
    using assms(2) Cons unfolding endsWith_hyphen by (metis hd_rev list.distinct(1))
  then have "dropWhile isHyphen (rev t) = rev t"
    by (simp add: dropWhile_id_hd)
  ultimately show ?thesis by (simp add: stripHyphens_def)
qed

lemma normalizeProject_fixes_slug: "wellFormedSlug t \<Longrightarrow> normalizeProject t = t"
  by (simp add: wellFormedSlug_def normalizeProject_def trim_slug toLowerCase_slug
      replace_slug stripHyphens_slug flip: singleHyphens_includes)

text \<open>
  C9. Slug normalisation is total and idempotent: normalising a second time changes
  nothing, and every output consists of characters in \<open>[a-z0-9-]\<close> only, neither starts
  nor ends with a hyphen, and contains no two hyphens in a row.
\<close>

theorem normalizeProject_idempotent:
  "normalizeProject (normalizeProject s) = normalizeProject s
   \<and> list_all slugChar (normalizeProject s)
   \<and> \<not> startsWith (normalizeProject s) ''-''
   \<and> \<not> endsWith (normalizeProject s) ''-''
   \<and> \<not> includesStr (normalizeProject s) ''--''"
  using normalizeProject_wellFormed [of s] normalizeProject_fixes_slug [of "normalizeProject s"]
  by (simp add: wellFormedSlug_def)

section \<open>Properties of the query limit\<close>

lemma toSafeLimit_finite:
  "isFinite (Number raw) \<Longrightarrow> 1 \<le> toSafeLimit raw fb \<and> toSafeLimit raw fb \<le> 100"
  by (cases "Number raw") (auto simp: toSafeLimit_def)

lemma toSafeLimit_not_finite: "\<not> isFinite (Number raw) \<Longrightarrow> toSafeLimit raw fb = fb"
  by (cases "Number raw") (auto simp: toSafeLimit_def)

lemma deploymentsSafeLimit_range:
  "1 \<le> deploymentsSafeLimit raw \<and> deploymentsSafeLimit raw \<le> 100"
  using toSafeLimit_finite [of raw 20] toSafeLimit_not_finite [of raw 20]
  by (cases "isFinite (Number raw)") (auto simp: deploymentsSafeLimit_def)

text \<open>
  C5. The limit applied by the query endpoints is claimed to lie in \<open>[1,100]\<close> for every
  client-supplied value, absent ones included. A request to \<open>/v1/logs\<close> without a
  \<open>limit\<close> parameter gets the fallback 120, which the clamp never sees.
\<close>

theorem logsSafeLimit_absent: "logsSafeLimit None = 120 \<and> \<not> logsSafeLimit None \<le> 100"
  by (simp add: logsSafeLimit_def toSafeLimit_def Number_def)

section \<open>Properties of shell quoting\<close>

lemma escapeQuotes_read:
  "shTokens InSingle (Some acc) (escapeQuotes s @ sq # rest) = shTokens Unquoted (Some (acc @ s)) rest"
proof (induction s arbitrary: acc)
  case Nil
  show ?case by simp
next
  case (Cons c cs)
  show ?case
  proof (cases "c = sq")
    case True
    have "shTokens InSingle (Some acc) (escapeQuotes (c # cs) @ sq # rest)
          = shTokens InSingle (Some (acc @ [sq])) (escapeQuotes cs @ sq # rest)"
      using True by (simp add: isExpansionChar_def)
    then show ?thesis using Cons.IH [of "acc @ [sq]"] True by simp
  next
    case False
    then show ?thesis using Cons.IH [of "acc @ [c]"] by simp
  qed
qed

lemma shellQuote_read [simp]:
  "shTokens Unquoted cur (shellQuote s @ rest) = shTokens Unquoted (Some (wordSoFar cur @ s)) rest"
  by (simp add: shellQuote_def escapeQuotes_read)

lemma shellQuote_read_end [simp]:
  "shTokens Unquoted cur (shellQuote s) = Some [Word (wordSoFar cur @ s)]"
  using shellQuote_read [of cur s "[]"] by simp

text \<open>
  C2. For every string \<open>s\<close>, the shell reads \<open>shellQuote s\<close> as the single word \<open>s\<close>; and
  it reads the deploy script as the intended commands, in which the repository path, the
  branch, the origin ref and the deploy command each arrive as one literal word.
\<close>

theorem shellQuote_roundtrip:
  "shellRead (shellQuote s) = Some [Word s]
   \<and> shellRead (buildAutoDeployScript project b) = Some
       [Word ''set'', Word ''-euo'', Word ''pipefail'', EndOfLine,
        Word ''cd'', Word (repoPath project), EndOfLine,
        Word ''git'', Word ''fetch'', Word ''origin'', Word b, EndOfLine,
        Word ''git'', Word ''checkout'', Word b, Operator ''||'',
        Word ''git'', Word ''checkout'', Word ''-b'', Word b, Word (''origin/'' @ b), EndOfLine,
        Word ''git'', Word ''reset'', Word ''--hard'', Word (''origin/'' @ b), EndOfLine,
        Word ''if'', Word ''[['', Word ''-x'', Word ''./deploy-with-track.sh'', Word '']]'',
        Operator '';'', Word ''then'', EndOfLine,
        Word ''./deploy-with-track.sh'', Word ''bash'', Word ''-lc'', Word (deployCommand project),
        EndOfLine,
        Word ''else'', EndOfLine,
        Word ''bash'', Word ''-lc'', Word (deployCommand project), EndOfLine,
        Word ''fi'']"
  by (simp add: shellRead_def buildAutoDeployScript_def Let_def isExpansionChar_def
      isOperatorChar_def twoCharOperators_def)

section \<open>Properties of the webhook endpoint\<close>

lemmas string_eval = code_def isWhiteSpace_def trimStart_def trimEnd_def trim_def
  toLowerChar_def toLowerCase_def startsWith_def endsWith_def isLowerAlnum_def isHyphen_def

lemmas webhook_eval = webhookGithub_def authFailure_def handlePush_def branchFromRef_def
  findAutoDeployProject_def canonicalRepoName_def stripDotGit_def contextOf_def commitHashOf_def
  queueAutoDeploy_def queueKeyOf_def Let_def

lemmas example_defs = tokenConfig_def pushRequest_def pingRequest_def acmeProject_def
  emptyQueues_def exampleRuntime_def exampleDateParse_def

lemma code_eq_iff: "code c = code d \<longleftrightarrow> c = d"
  by (simp add: code_def)

lemma code_toLowerChar:
  "code (toLowerChar c) =
     (if (65 \<le> code c \<and> code c \<le> 90) \<or> (192 \<le> code c \<and> code c \<le> 222 \<and> code c \<noteq> 215)
      then code c + 32 else code c)"
  by (auto simp: toLowerChar_def code_def)

lemma toLowerChar_slash: "toLowerChar c = CHR ''/'' \<longleftrightarrow> c = CHR ''/''"
proof -
  have "toLowerChar c = CHR ''/'' \<longleftrightarrow> code (toLowerChar c) = 47"
    using code_eq_iff [of "toLowerChar c" "CHR ''/''"] by (simp add: code_def)
  also have "\<dots> \<longleftrightarrow> code c = 47"
    by (auto simp: code_toLowerChar)
  also have "\<dots> \<longleftrightarrow> c = CHR ''/''"
    using code_eq_iff [of c "CHR ''/''"] by (simp add: code_def)
  finally show ?thesis .
qed

lemma slash_toLowerChar: "CHR ''/'' = toLowerChar c \<longleftrightarrow> c = CHR ''/''"
  using toLowerChar_slash [of c] by auto

lemma includes_slash_lower: "includesStr (toLowerCase s) ''/'' = includesStr s ''/''"
  by (induction s) (auto simp: toLowerCase_def toLowerChar_slash slash_toLowerChar)

lemma findLoop_find:
  "findLoop (toLowerCase (trim f)) (canonicalRepoName (if n \<noteq> [] then n else f)) b ps
   = find (projectMatches n f b) ps"
  by (induction ps) (auto simp: projectMatches_def Let_def includes_slash_lower)

lemma findAutoDeployProject_find:
  "findAutoDeployProject cfg n f b = find (projectMatches n f b) (autoDeployProjects cfg)"
  by (simp add: findAutoDeployProject_def Let_def findLoop_find)

lemma webhook_reaches:
  assumes "reachesMatching rt cfg request payload n f b"
  shows "webhookGithub rt cfg request uuid st =
     (case findAutoDeployProject cfg n f b of
        None \<Rightarrow> (Inr (Reply 202 (IgnoredBody
                   (''No matching auto deploy project for '' @ f @ '':'' @ b @ ''.''))), st)
      | Some project \<Rightarrow>
          (case contextOf payload n f b of
             Inl e \<Rightarrow> (Inl e, st)
           | Inr context \<Rightarrow> (Inr (Reply 202 (QueuedBody uuid (projectName project) b f)),
                              queueAutoDeploy project context uuid st)))"
proof -
  from assms have p: "payload \<noteq> JNull" by (auto simp: reachesMatching_def)
  show ?thesis
    using assms p unfolding reachesMatching_def webhookGithub_def handlePush_def Let_def
    by (auto split: option.splits sum.splits)
qed

lemma example_main_queued:
  "fst (webhookGithub rt (tokenConfig [acmeProject]) (pushRequest ''refs/heads/main'' ''org/acme'')
          uuid st)
   = Inr (Reply 202 (QueuedBody uuid ''Acme'' ''main'' ''org/acme''))"
  by (simp add: webhook_eval string_eval example_defs)

lemma example_develop_ignored:
  "webhookGithub rt (tokenConfig [acmeProject]) (pushRequest ''refs/heads/develop'' ''org/acme'')
     uuid st
   = (Inr (Reply 202 (IgnoredBody ''No matching auto deploy project for org/acme:develop.'')), st)"
  by (simp add: webhook_eval string_eval example_defs)

lemma example_wildcard:
  "findAutoDeployProject (tokenConfig [acmeProject\<lparr>branch := ''*''\<rparr>]) [] ''org/acme'' b
   = Some (acmeProject\<lparr>branch := ''*''\<rparr>)"
  by (simp add: webhook_eval string_eval example_defs)

text \<open>
  C6. \<open>findAutoDeployProject\<close> returns the first configured project that matches in the
  words of the specification. On a push that reaches the matching step the reply is
  "ignored" when no project matches, and "queued" for the first match (unless reading
  the commit fields of the payload throws). A push to \<open>refs/heads/main\<close> of \<open>org/acme\<close>
  against \<open>repository: "org/acme", branch: "main"\<close> is queued, a push to
  \<open>refs/heads/develop\<close> is ignored, and with \<open>branch: "*"\<close> every branch matches.
\<close>

theorem findAutoDeployProject_first_match:
  "findAutoDeployProject cfg n f b = find (projectMatches n f b) (autoDeployProjects cfg)
   \<and> (reachesMatching rt cfg request payload n f b \<longrightarrow>
        find (projectMatches n f b) (autoDeployProjects cfg) = None \<longrightarrow>
        webhookGithub rt cfg request uuid st
          = (Inr (Reply 202 (IgnoredBody
               (''No matching auto deploy project for '' @ f @ '':'' @ b @ ''.''))), st))
   \<and> (reachesMatching rt cfg request payload n f b \<longrightarrow>
        find (projectMatches n f b) (autoDeployProjects cfg) = Some project \<longrightarrow>
        fst (webhookGithub rt cfg request uuid st)
          = (case contextOf payload n f b of
               Inl e \<Rightarrow> Inl e
             | Inr context \<Rightarrow> Inr (Reply 202 (QueuedBody uuid (projectName project) b f))))
   \<and> fst (webhookGithub rt (tokenConfig [acmeProject])
            (pushRequest ''refs/heads/main'' ''org/acme'') uuid st)
       = Inr (Reply 202 (QueuedBody uuid ''Acme'' ''main'' ''org/acme''))
   \<and> webhookGithub rt (tokenConfig [acmeProject])
        (pushRequest ''refs/heads/develop'' ''org/acme'') uuid st
       = (Inr (Reply 202 (IgnoredBody ''No matching auto deploy project for org/acme:develop.'')), st)
   \<and> findAutoDeployProject (tokenConfig [acmeProject\<lparr>branch := ''*''\<rparr>]) [] ''org/acme'' anyBranch
       = Some (acmeProject\<lparr>branch := ''*''\<rparr>)"
proof -
  have "webhookGithub rt cfg request uuid st
          = (Inr (Reply 202 (IgnoredBody
               (''No matching auto deploy project for '' @ f @ '':'' @ b @ ''.''))), st)"
    if "reachesMatching rt cfg request payload n f b"
      and "find (projectMatches n f b) (autoDeployProjects cfg) = None"
    using webhook_reaches [OF that(1)] that(2) by (simp add: findAutoDeployProject_find)
  moreover have "fst (webhookGithub rt cfg request uuid st)
          = (case contextOf payload n f b of
               Inl e \<Rightarrow> Inl e
             | Inr context \<Rightarrow> Inr (Reply 202 (QueuedBody uuid (projectName project) b f)))"
    if "reachesMatching rt cfg request payload n f b"
      and "find (projectMatches n f b) (autoDeployProjects cfg) = Some project"
    using webhook_reaches [OF that(1)] that(2)
    by (simp add: findAutoDeployProject_find split: sum.splits)
  ultimately show ?thesis
    using findAutoDeployProject_find example_main_queued example_develop_ignored example_wildcard
    by blast
qed

theorem findAutoDeployProject_first_match_witness:
  "reachesMatching exampleRuntime (tokenConfig [acmeProject])
     (pushRequest ''refs/heads/develop'' ''org/acme'')
     (JObj [(''ref'', JStr ''refs/heads/develop''),
            (''repository'', JObj [(''full_name'', JStr ''org/acme'')])])
     [] ''org/acme'' ''develop''
   \<and> find (projectMatches [] ''org/acme'' ''develop'') (autoDeployProjects (tokenConfig [acmeProject]))
       = None
   \<and> reachesMatching exampleRuntime (tokenConfig [acmeProject])
     (pushRequest ''refs/heads/main'' ''org/acme'')
     (JObj [(''ref'', JStr ''refs/heads/main''),
            (''repository'', JObj [(''full_name'', JStr ''org/acme'')])])
     [] ''org/acme'' ''main''
   \<and> find (projectMatches [] ''org/acme'' ''main'') (autoDeployProjects (tokenConfig [acmeProject]))
       = Some acmeProject
   \<and> findAutoDeployProject (tokenConfig [acmeProject]) [] ''org/acme'' ''main'' = Some acmeProject
   \<and> fst (webhookGithub exampleRuntime (tokenConfig [acmeProject])
            (pushRequest ''refs/heads/main'' ''org/acme'') ''job-1'' emptyQueues)
       = Inr (Reply 202 (QueuedBody ''job-1'' ''Acme'' ''main'' ''org/acme''))"
  using findAutoDeployProject_first_match
    [of "tokenConfig [acmeProject]" "[]" "''org/acme''" "''main''" exampleRuntime
        "pushRequest ''refs/heads/main'' ''org/acme''"
        "JObj [(''ref'', JStr ''refs/heads/main''),
               (''repository'', JObj [(''full_name'', JStr ''org/acme'')])]"
        "''job-1''" emptyQueues acmeProject "''main''"]
  by (simp add: reachesMatching_def projectMatches_def webhook_eval string_eval example_defs)

lemma handlePush_queued:
  assumes "handlePush cfg payload uuid st = (Inr (Reply 202 (QueuedBody jid pname b repo)), st')"
  shows "\<exists>project context n.
           findAutoDeployProject cfg n repo b = Some project
           \<and> contextOf payload n repo b = Inr context
           \<and> branchFromRef (getProp payload ''ref'') = Inr b
           \<and> pname = projectName project \<and> jid = uuid
           \<and> st' = queueAutoDeploy project context uuid st"
  using assms unfolding handlePush_def
  by (auto split: if_splits sum.splits option.splits)

lemma webhookGithub_queued:
  assumes "webhookGithub rt cfg request uuid st = (Inr (Reply 202 (QueuedBody jid pname b repo)), st')"
  shows "\<exists>payload. body request = Some payload
           \<and> handlePush cfg payload uuid st = (Inr (Reply 202 (QueuedBody jid pname b repo)), st')"
  using assms unfolding webhookGithub_def Let_def
  by (auto split: if_splits option.splits)

lemma find_Some_member: "find P xs = Some x \<Longrightarrow> x \<in> set xs \<and> P x"
  by (induction xs) (auto split: if_splits)

lemma contextOf_branch: "contextOf payload n f b = Inr context \<Longrightarrow> ctxBranch context = b"
  by (auto simp: contextOf_def split: sum.splits)

text \<open>
  C3, as the code has it. For every push accepted as "queued", the job is chained under
  the key \<open>{projectSlug}:{branch}\<close> of the matched project, with the branch as configured:
  the incoming branch, or \<open>*\<close> for a wildcard project. The context of the job carries the
  incoming branch.
\<close>

theorem queue_key_configured_branch:
  assumes "webhookGithub rt cfg request uuid st
             = (Inr (Reply 202 (QueuedBody jid pname b repo)), st')"
  shows "\<exists>project context.
           project \<in> set (autoDeployProjects cfg)
           \<and> pname = projectName project
           \<and> (branch project = ''*'' \<or> branch project = b)
           \<and> ctxBranch context = b
           \<and> st' = queueAutoDeploy project context uuid st
           \<and> autoDeployQueues st' (projectSlug project @ '':'' @ branch project) = Some uuid
           \<and> jobQueueKey (last (chained st')) = projectSlug project @ '':'' @ branch project
           \<and> (if branch project = ''*''
               then jobQueueKey (last (chained st')) = projectSlug project @ '':*''
               else jobQueueKey (last (chained st')) = projectSlug project @ '':'' @ b)"
proof -
  from webhookGithub_queued [OF assms] obtain payload where
    "handlePush cfg payload uuid st = (Inr (Reply 202 (QueuedBody jid pname b repo)), st')"
    by blast
  from handlePush_queued [OF this] obtain project ctx n where
    found: "findAutoDeployProject cfg n repo b = Some project"
    and ctx: "contextOf payload n repo b = Inr ctx"
    and rest: "pname = projectName project" "st' = queueAutoDeploy project ctx uuid st"
    by blast
  from found have mem: "project \<in> set (autoDeployProjects cfg)"
    and m: "projectMatches n repo b project"
    using find_Some_member [of "projectMatches n repo b" "autoDeployProjects cfg" project]
    by (simp_all add: findAutoDeployProject_find)
  from m have br: "branch project = ''*'' \<or> branch project = b"
    by (simp add: projectMatches_def)
  have key: "jobQueueKey (last (chained st')) = projectSlug project @ '':'' @ branch project"
    and q: "autoDeployQueues st' (projectSlug project @ '':'' @ branch project) = Some uuid"
    using rest(2) by (simp_all add: queueAutoDeploy_def queueKeyOf_def Let_def)
  have "if branch project = ''*''
        then jobQueueKey (last (chained st')) = projectSlug project @ '':*''
        else jobQueueKey (last (chained st')) = projectSlug project @ '':'' @ b"
    using key br by auto
  with mem rest br key q contextOf_branch [OF ctx] show ?thesis by blast
qed

theorem queue_key_configured_branch_witness:
  "webhookGithub exampleRuntime (tokenConfig [acmeProject])
     (pushRequest ''refs/heads/main'' ''org/acme'') ''job-1'' emptyQueues
   = (Inr (Reply 202 (QueuedBody ''job-1'' ''Acme'' ''main'' ''org/acme'')),
      queueAutoDeploy acmeProject
        \<lparr>ctxRepositoryName = [], ctxRepositoryFullName = ''org/acme'', ctxBranch = ''main'',
         ctxCommitHash = JStr ''unknown'', ctxCommitMessage = [], ctxPusher = ''unknown''\<rparr>
        ''job-1'' emptyQueues)
   \<and> (\<exists>project context.
         project \<in> set (autoDeployProjects (tokenConfig [acmeProject]))
         \<and> jobQueueKey (last (chained (queueAutoDeploy acmeProject
              \<lparr>ctxRepositoryName = [], ctxRepositoryFullName = ''org/acme'', ctxBranch = ''main'',
               ctxCommitHash = JStr ''unknown'', ctxCommitMessage = [], ctxPusher = ''unknown''\<rparr>
              ''job-1'' emptyQueues)))
             = projectSlug project @ '':'' @ ''main'')"
proof -
  have run: "webhookGithub exampleRuntime (tokenConfig [acmeProject])
     (pushRequest ''refs/heads/main'' ''org/acme'') ''job-1'' emptyQueues
   = (Inr (Reply 202 (QueuedBody ''job-1'' ''Acme'' ''main'' ''org/acme'')),
      queueAutoDeploy acmeProject
        \<lparr>ctxRepositoryName = [], ctxRepositoryFullName = ''org/acme'', ctxBranch = ''main'',
         ctxCommitHash = JStr ''unknown'', ctxCommitMessage = [], ctxPusher = ''unknown''\<rparr>
        ''job-1'' emptyQueues)"
    by (simp add: webhook_eval string_eval example_defs)
  from queue_key_configured_branch [OF run] obtain project ctx where
    "project \<in> set (autoDeployProjects (tokenConfig [acmeProject]))"
    "jobQueueKey (last (chained (queueAutoDeploy acmeProject
        \<lparr>ctxRepositoryName = [], ctxRepositoryFullName = ''org/acme'', ctxBranch = ''main'',
         ctxCommitHash = JStr ''unknown'', ctxCommitMessage = [], ctxPusher = ''unknown''\<rparr>
        ''job-1'' emptyQueues)))
       = projectSlug project @ '':'' @ branch project"
    "branch project = ''*'' \<or> branch project = ''main''"
    by blast
  moreover from this(1) have "branch project = ''main''"
    by (simp add: example_defs)
  ultimately show ?thesis using run by auto
qed

text \<open>
  The claim C3 as stated fails for a project configured with \<open>branch: "*"\<close>: a push to
  \<open>dev\<close> is queued under \<open>acme:*\<close>, not \<open>acme:dev\<close>, and a following push to \<open>main\<close> is
  chained behind it under the same key.
\<close>

theorem queue_key_wildcard_counterexample:
  "webhookGithub exampleRuntime (tokenConfig [acmeProject\<lparr>branch := ''*''\<rparr>])
     (pushRequest ''refs/heads/dev'' ''org/acme'') ''job-1'' emptyQueues
   = (Inr (Reply 202 (QueuedBody ''job-1'' ''Acme'' ''dev'' ''org/acme'')),
      queueAutoDeploy (acmeProject\<lparr>branch := ''*''\<rparr>)
        \<lparr>ctxRepositoryName = [], ctxRepositoryFullName = ''org/acme'', ctxBranch = ''dev'',
         ctxCommitHash = JStr ''unknown'', ctxCommitMessage = [], ctxPusher = ''unknown''\<rparr>
        ''job-1'' emptyQueues)
   \<and> map jobQueueKey (chained (snd (webhookGithub exampleRuntime
         (tokenConfig [acmeProject\<lparr>branch := ''*''\<rparr>])
         (pushRequest ''refs/heads/dev'' ''org/acme'') ''job-1'' emptyQueues))) = [''acme:*'']
   \<and> ''acme:*'' \<noteq> projectSlug acmeProject @ '':'' @ ''dev''
   \<and> map (\<lambda>j. (jobId j, jobQueueKey j, ctxBranch (jobContext j), jobPrevious j))
        (chained (snd (webhookGithub exampleRuntime
           (tokenConfig [acmeProject\<lparr>branch := ''*''\<rparr>])
           (pushRequest ''refs/heads/main'' ''org/acme'') ''job-2''
           (snd (webhookGithub exampleRuntime (tokenConfig [acmeProject\<lparr>branch := ''*''\<rparr>])
              (pushRequest ''refs/heads/dev'' ''org/acme'') ''job-1'' emptyQueues)))))
       = [(''job-1'', ''acme:*'', ''dev'', None), (''job-2'', ''acme:*'', ''main'', Some ''job-1'')]"
  by (simp add: webhook_eval string_eval example_defs)

lemma handlePush_not_auth_missing:
  "fst (handlePush cfg payload uuid st) \<noteq> Inr (Reply 500 (ErrorBody
     ''Webhook auth missing. Set AUTO_DEPLOY_WEBHOOK_TOKEN or GITHUB_WEBHOOK_SECRET.''))"
  unfolding handlePush_def
  by (auto split: if_splits sum.splits option.splits)

lemma findAutoDeployProject_secret:
  "findAutoDeployProject (cfg\<lparr>githubWebhookSecret := x\<rparr>) = findAutoDeployProject cfg"
  by (rule ext)+ (simp add: findAutoDeployProject_def)

lemma handlePush_secret: "handlePush (cfg\<lparr>githubWebhookSecret := x\<rparr>) = handlePush cfg"
  unfolding handlePush_def findAutoDeployProject_secret by simp

text \<open>
  C4, as the code has it. For a request with an object body while auto deploy is enabled,
  the endpoint answers with the 500 "Webhook auth missing" error exactly when neither the
  token nor the secret is configured. When a token is configured the secret plays no
  part: the reply and the queues are the same as without a secret.
\<close>

theorem webhook_auth_configuration:
  assumes "body request = Some payload" "isObjectValue payload" "autoDeployEnabled cfg"
  shows "(fst (webhookGithub rt cfg request uuid st) = Inr (Reply 500 (ErrorBody
            ''Webhook auth missing. Set AUTO_DEPLOY_WEBHOOK_TOKEN or GITHUB_WEBHOOK_SECRET.''))
          \<longleftrightarrow> autoDeployWebhookToken cfg = [] \<and> githubWebhookSecret cfg = [])
         \<and> (autoDeployWebhookToken cfg \<noteq> [] \<longrightarrow>
              webhookGithub rt cfg request uuid st
                = webhookGithub rt (cfg\<lparr>githubWebhookSecret := []\<rparr>) request uuid st)"
proof -
  from assms(2) have p: "payload \<noteq> JNull" by auto
  have a: "fst (webhookGithub rt cfg request uuid st) = Inr (Reply 500 (ErrorBody
            ''Webhook auth missing. Set AUTO_DEPLOY_WEBHOOK_TOKEN or GITHUB_WEBHOOK_SECRET.''))"
    if "autoDeployWebhookToken cfg = [] \<and> githubWebhookSecret cfg = []"
    using that assms p by (simp add: webhookGithub_def Let_def)
  have b: "fst (webhookGithub rt cfg request uuid st) \<noteq> Inr (Reply 500 (ErrorBody
            ''Webhook auth missing. Set AUTO_DEPLOY_WEBHOOK_TOKEN or GITHUB_WEBHOOK_SECRET.''))"
    if "\<not> (autoDeployWebhookToken cfg = [] \<and> githubWebhookSecret cfg = [])"
    using that assms p handlePush_not_auth_missing [of cfg payload uuid st]
    by (auto simp: webhookGithub_def Let_def split: option.splits)
  have c: "webhookGithub rt cfg request uuid st
             = webhookGithub rt (cfg\<lparr>githubWebhookSecret := []\<rparr>) request uuid st"
    if "autoDeployWebhookToken cfg \<noteq> []"
    using that assms p
    by (simp add: webhookGithub_def Let_def authFailure_def handlePush_secret)
  from a b c show ?thesis by blast
qed

theorem webhook_auth_configuration_witness:
  "body pingRequest = Some (JObj [(''zen'', JStr ''Keep it logically awesome.'')])
   \<and> isObjectValue (JObj [(''zen'', JStr ''Keep it logically awesome.'')])
   \<and> autoDeployEnabled (tokenConfig [acmeProject])
   \<and> autoDeployWebhookToken (tokenConfig [acmeProject]) \<noteq> []
   \<and> fst (webhookGithub exampleRuntime (tokenConfig [acmeProject]) pingRequest ''job-1''
            emptyQueues) \<noteq> Inr (Reply 500 (ErrorBody
        ''Webhook auth missing. Set AUTO_DEPLOY_WEBHOOK_TOKEN or GITHUB_WEBHOOK_SECRET.''))
   \<and> fst (webhookGithub exampleRuntime
            ((tokenConfig [acmeProject])\<lparr>autoDeployWebhookToken := []\<rparr>) pingRequest ''job-1''
            emptyQueues) = Inr (Reply 500 (ErrorBody
        ''Webhook auth missing. Set AUTO_DEPLOY_WEBHOOK_TOKEN or GITHUB_WEBHOOK_SECRET.''))"
  using webhook_auth_configuration
    [of pingRequest "JObj [(''zen'', JStr ''Keep it logically awesome.'')]"
        "tokenConfig [acmeProject]" exampleRuntime "''job-1''" emptyQueues]
    webhook_auth_configuration
    [of pingRequest "JObj [(''zen'', JStr ''Keep it logically awesome.'')]"
        "(tokenConfig [acmeProject])\<lparr>autoDeployWebhookToken := []\<rparr>" exampleRuntime "''job-1''"
        emptyQueues]
  by (simp add: example_defs)

text \<open>
  The claim C4 as stated fails when both modes are configured: the endpoint does not
  answer 500 but authenticates by token, verifies a ping and queues a push.
\<close>

theorem both_auth_modes_counterexample:
  "autoDeployWebhookToken ((tokenConfig [acmeProject])\<lparr>githubWebhookSecret := ''s3cret''\<rparr>) = ''t0ken''
   \<and> githubWebhookSecret ((tokenConfig [acmeProject])\<lparr>githubWebhookSecret := ''s3cret''\<rparr>) = ''s3cret''
   \<and> webhookGithub exampleRuntime ((tokenConfig [acmeProject])\<lparr>githubWebhookSecret := ''s3cret''\<rparr>)
        pingRequest ''job-1'' emptyQueues
       = (Inr (Reply 200 PingBody), emptyQueues)
   \<and> fst (webhookGithub exampleRuntime ((tokenConfig [acmeProject])\<lparr>githubWebhookSecret := ''s3cret''\<rparr>)
        (pushRequest ''refs/heads/main'' ''org/acme'') ''job-1'' emptyQueues)
       = Inr (Reply 202 (QueuedBody ''job-1'' ''Acme'' ''main'' ''org/acme''))"
  by (simp add: webhook_eval string_eval example_defs)

end
